theory Spec2Isabelle
  imports Complex_Main "HOL-Library.Log_Nat"
begin

section \<open>Python values and exceptions\<close>

text \<open>
  The drift report handed back by the drift library (\<open>drift_report.as_dict()\<close>) and the
  JSON bodies of HTTP responses are dynamically typed Python values. They are modelled by
  a datatype of JSON-like values. A \<open>bool\<close> is tested before an \<open>int\<close> wherever the
  source does so (\<open>bool\<close> is a subclass of \<open>int\<close> in Python), so the two are
  separate constructors. A finite float is the real number it denotes; \<open>nan\<close> and the
  infinities are not represented. A dict is an association list with string keys, looked
  up with \<open>map_of\<close>.
\<close>

datatype py_error =
    AttributeError | TypeError | KeyError | IndexError | ValueError | OverflowError
  | FileNotFoundError | RequestException

datatype pyval =
    PyNone
  | PyBool bool
  | PyInt int
  | PyFloat real
  | PyStr string
  | PyList "pyval list"
  | PyDict "(string \<times> pyval) list"

text \<open>\<open>d.get(key, default)\<close>: only a dict has the method.\<close>

fun py_get :: "pyval \<Rightarrow> string \<Rightarrow> pyval \<Rightarrow> py_error + pyval" where
  "py_get (PyDict kvs) k dflt = Inr (case map_of kvs k of None \<Rightarrow> dflt | Some v \<Rightarrow> v)"
| "py_get _ k dflt = Inl AttributeError"

text \<open>\<open>d[key]\<close> with a string key: \<open>KeyError\<close> on a dict without the key,
  \<open>TypeError\<close> on every other value of the model.\<close>

fun py_getitem :: "pyval \<Rightarrow> string \<Rightarrow> py_error + pyval" where
  "py_getitem (PyDict kvs) k = (case map_of kvs k of None \<Rightarrow> Inl KeyError | Some v \<Rightarrow> Inr v)"
| "py_getitem _ k = Inl TypeError"

text \<open>\<open>for x in v\<close>: a list yields its elements, a dict its keys, a string its
  characters; the other values are not iterable.\<close>

fun py_iter :: "pyval \<Rightarrow> py_error + pyval list" where
  "py_iter (PyList xs) = Inr xs"
| "py_iter (PyDict kvs) = Inr (map (\<lambda>kv. PyStr (fst kv)) kvs)"
| "py_iter (PyStr s) = Inr (map (\<lambda>c. PyStr [c]) s)"
| "py_iter _ = Inl TypeError"

text \<open>
  \<open>float(i)\<close> of a Python int: the nearest double, ties to even, and \<open>OverflowError\<close>
  when that would not be finite. A double has a 53 bit significand, and the largest one is
  \<open>2 ^ 1024 - 2 ^ 971\<close>. \<open>round_magnitude\<close> rounds a non-negative int to 53
  significant bits.
\<close>

definition round_magnitude :: "int \<Rightarrow> int" where
  "round_magnitude a =
     (let e = nat (bitlen a - 53);
          q = a div 2 ^ e;
          r = a mod 2 ^ e;
          q' = (if 2 * r > 2 ^ e \<or> (2 * r = 2 ^ e \<and> odd q) then q + 1 else q)
      in q' * 2 ^ e)"

definition round_to_double :: "int \<Rightarrow> int" where
  "round_to_double i = sgn i * round_magnitude \<bar>i\<bar>"

definition py_float_of_int :: "int \<Rightarrow> py_error + real" where
  "py_float_of_int i =
     (if \<bar>round_to_double i\<bar> \<ge> 2 ^ 1024 then Inl OverflowError
      else Inr (real_of_int (round_to_double i)))"

section \<open>Drift check (\<open>src/drift_detector.py\<close>)\<close>

text \<open>
  The verdict dictionary \<open>drift_info\<close> built at the end of \<open>check_drift\<close>. The score
  is a Python value: the source stores in \<open>drift_score\<close> whatever it read from the report.
\<close>

record drift_info =
  drift_detected :: bool
  drift_score :: pyval
  threshold :: real
  reference_samples :: nat
  current_samples :: nat

text \<open>
  The \<open>for metric in metrics\<close> loop up to the assignment of the raw result: it raises
  (\<open>Inl\<close>), ends without a \<open>DatasetDriftMetric\<close> entry (\<open>Inr None\<close>), or reads the
  raw \<open>dataset_drift\<close> value of the first such entry, after which the source leaves the
  loop with \<open>break\<close>.
\<close>

fun scan_metrics :: "pyval list \<Rightarrow> py_error + pyval option" where
  "scan_metrics [] = Inr None"
| "scan_metrics (metric # rest) =
     (case py_get metric ''metric'' PyNone of
        Inl e \<Rightarrow> Inl e
      | Inr name \<Rightarrow>
          if name = PyStr ''DatasetDriftMetric'' then
            (case py_get metric ''result'' (PyDict []) of
               Inl e \<Rightarrow> Inl e
             | Inr res \<Rightarrow>
                 (case py_get res ''dataset_drift'' (PyBool False) of
                    Inl e \<Rightarrow> Inl e
                  | Inr raw \<Rightarrow> Inr (Some raw)))
          else scan_metrics rest)"

text \<open>Lines 140 to 143: \<open>report_dict.get('metrics', [])\<close>, then the loop.\<close>

definition find_dataset_drift :: "pyval \<Rightarrow> py_error + pyval option" where
  "find_dataset_drift report_dict =
     (case py_get report_dict ''metrics'' (PyList []) of
        Inl e \<Rightarrow> Inl e
      | Inr metrics \<Rightarrow>
          (case py_iter metrics of
             Inl e \<Rightarrow> Inl e
           | Inr ms \<Rightarrow> scan_metrics ms))"

text \<open>
  The state of the two local variables when the \<open>try\<close> block is left, and the exception
  that left it, if any. \<open>interpret_raw\<close> is lines 143 to 148: the \<open>isinstance\<close> tests in
  the source's order. In the \<open>int\<close> case \<open>drift_detected\<close> is assigned before
  \<open>float(drift_score)\<close> is evaluated, so an \<open>OverflowError\<close> leaves the int in
  \<open>drift_score\<close>.
\<close>

record try_state =
  ts_detected :: bool
  ts_score :: pyval
  ts_raised :: "py_error option"

definition interpret_raw :: "real \<Rightarrow> pyval \<Rightarrow> try_state" where
  "interpret_raw th raw =
     (case raw of
        PyBool b \<Rightarrow> \<lparr>ts_detected = b, ts_score = raw, ts_raised = None\<rparr>
      | PyInt i \<Rightarrow>
          (case py_float_of_int i of
             Inl e \<Rightarrow> \<lparr>ts_detected = th < real_of_int i, ts_score = raw, ts_raised = Some e\<rparr>
           | Inr f \<Rightarrow> \<lparr>ts_detected = th < real_of_int i, ts_score = PyFloat f, ts_raised = None\<rparr>)
      | PyFloat x \<Rightarrow> \<lparr>ts_detected = th < x, ts_score = PyFloat x, ts_raised = None\<rparr>
      | _ \<Rightarrow> \<lparr>ts_detected = False, ts_score = raw, ts_raised = None\<rparr>)"

definition try_extract :: "real \<Rightarrow> pyval \<Rightarrow> try_state" where
  "try_extract th report_dict =
     (case find_dataset_drift report_dict of
        Inl e \<Rightarrow> \<lparr>ts_detected = False, ts_score = PyFloat 0, ts_raised = Some e\<rparr>
      | Inr None \<Rightarrow> \<lparr>ts_detected = False, ts_score = PyFloat 0, ts_raised = None\<rparr>
      | Inr (Some raw) \<Rightarrow> interpret_raw th raw)"

text \<open>
  \<open>check_drift\<close>. The drift library runs outside the \<open>try\<close> block, so an exception
  of \<open>Report.run\<close> or \<open>as_dict\<close> propagates: the library's outcome is the first
  argument. The two sample sizes are \<open>len(reference_data)\<close> and \<open>len(current_data)\<close>.
  The \<open>except\<close> clause resets \<open>drift_detected\<close> and nothing else.
\<close>

definition check_drift ::
  "py_error + pyval \<Rightarrow> real \<Rightarrow> nat \<Rightarrow> nat \<Rightarrow> py_error + (bool \<times> drift_info)" where
  "check_drift report th n_ref n_cur =
     (case report of
        Inl e \<Rightarrow> Inl e
      | Inr report_dict \<Rightarrow>
          (let st = try_extract th report_dict;
               detected = (case ts_raised st of None \<Rightarrow> ts_detected st | Some e \<Rightarrow> False)
           in Inr (detected,
                   \<lparr>drift_detected = detected, drift_score = ts_score st, threshold = th,
                    reference_samples = n_ref, current_samples = n_cur\<rparr>)))"

text \<open>
  An entry the loop passes over: a dict whose \<open>metric\<close> is not \<open>DatasetDriftMetric\<close>.
  An entry that is not a dict is not passed over: \<open>metric.get\<close> raises on it.
\<close>

definition passed_over :: "pyval \<Rightarrow> bool" where
  "passed_over m =
     (case m of
        PyDict d \<Rightarrow> map_of d ''metric'' \<noteq> Some (PyStr ''DatasetDriftMetric'')
      | _ \<Rightarrow> False)"

text \<open>The value \<open>check_drift\<close> returns when it reports no drift, with the given score.\<close>

definition no_drift_verdict ::
  "pyval \<Rightarrow> real \<Rightarrow> nat \<Rightarrow> nat \<Rightarrow> py_error + (bool \<times> drift_info)" where
  "no_drift_verdict score th n_ref n_cur =
     Inr (False, \<lparr>drift_detected = False, drift_score = score, threshold = th,
                  reference_samples = n_ref, current_samples = n_cur\<rparr>)"

section \<open>The retrain trigger (\<open>src/drift_detector.py\<close>, \<open>airflow/dags/retrain_dag.py\<close>)\<close>

text \<open>
  The part of the outside world the trigger touches: the files that exist, by their path
  below the repository root, and the URLs posted to the orchestration service so far.
  Both modules build the marker's path from their own location and both arrive at
  \<open>airflow/trigger_retrain.flag\<close> below the repository root. \<open>touch\<close> and
  \<open>unlink\<close> are those of \<open>pathlib\<close> with the marker's directory in place:
  \<open>touch\<close> creates the file or leaves it, \<open>unlink\<close> raises on a missing file.
\<close>

record world =
  files :: "string set"
  rest_calls :: "string list"

definition trigger_file :: string where
  "trigger_file = ''airflow/trigger_retrain.flag''"

definition path_exists :: "string \<Rightarrow> world \<Rightarrow> bool" where
  "path_exists p w = (p \<in> files w)"

definition touch :: "string \<Rightarrow> world \<Rightarrow> world" where
  "touch p w = w\<lparr>files := insert p (files w)\<rparr>"

definition unlink :: "string \<Rightarrow> world \<Rightarrow> py_error + world" where
  "unlink p w = (if p \<in> files w then Inr (w\<lparr>files := files w - {p}\<rparr>) else Inl FileNotFoundError)"

text \<open>
  What \<open>requests.post\<close> gives back: the status code and the outcome of
  \<open>response.json()\<close>. The call itself may raise instead.
\<close>

record response =
  status_code :: int
  json_body :: "py_error + pyval"

text \<open>
  \<open>trigger_retraining\<close>. The base URL comes from the process environment and the
  workflow identifier from the configuration document; \<open>post\<close> is the orchestration
  service as seen through \<open>requests.post\<close>. A response with status 200 or 201 returns
  at once; every other outcome, an exception included, falls through to the marker file.
\<close>

definition dag_runs_url :: "string \<Rightarrow> string \<Rightarrow> string" where
  "dag_runs_url base dag = base @ ''/api/v1/dags/'' @ dag @ ''/dagRuns''"

definition trigger_retraining ::
  "string \<Rightarrow> string \<Rightarrow> (string \<Rightarrow> py_error + response) \<Rightarrow> world \<Rightarrow> bool \<times> world" where
  "trigger_retraining base dag post w =
     (let trigger_url = dag_runs_url base dag;
          w1 = w\<lparr>rest_calls := rest_calls w @ [trigger_url]\<rparr>
      in case post trigger_url of
           Inl e \<Rightarrow> (True, touch trigger_file w1)
         | Inr resp \<Rightarrow>
             if status_code resp \<in> set [200, 201] then (True, w1)
             else (True, touch trigger_file w1))"

text \<open>The primary path succeeded: the request returned, with status 200 or 201.\<close>

definition primary_succeeded :: "py_error + response \<Rightarrow> bool" where
  "primary_succeeded outcome =
     (case outcome of Inl e \<Rightarrow> False | Inr resp \<Rightarrow> status_code resp \<in> set [200, 201])"

text \<open>\<open>check_retrain_trigger\<close>, the first task of the retraining DAG.\<close>

definition check_retrain_trigger :: "world \<Rightarrow> py_error + (bool \<times> world)" where
  "check_retrain_trigger w =
     (if path_exists trigger_file w then
        (case unlink trigger_file w of
           Inl e \<Rightarrow> Inl e
         | Inr w' \<Rightarrow> Inr (True, w'))
      else Inr (False, w))"

section \<open>Data ingestion (\<open>src/data_ingestion.py\<close>)\<close>

text \<open>
  A row of the raw partition, with the columns \<open>preprocess_data\<close> reads from a green
  taxi file. A missing value (\<open>NaN\<close>, \<open>NaT\<close>) is \<open>None\<close>; the numeric columns are
  floating point in the published files, so a passenger count is a real number here. A
  timestamp carries its nanoseconds since the epoch and the calendar fields pandas
  derives from it.
\<close>

record timestamp =
  epoch_ns :: int
  ts_hour :: int
  ts_dayofweek :: int
  ts_month :: int

record raw_trip =
  raw_trip_distance :: "real option"
  raw_passenger_count :: "real option"
  raw_PULocationID :: "real option"
  raw_DOLocationID :: "real option"
  raw_lpep_pickup_datetime :: "timestamp option"
  raw_lpep_dropoff_datetime :: "timestamp option"

text \<open>A row of the cleaned frame: the seven features and the target column, which the
  configuration document names and the ingestion computes as \<open>trip_duration_minutes\<close>.\<close>

record trip =
  c_trip_distance :: real
  c_passenger_count :: real
  c_hour :: int
  c_day_of_week :: int
  c_month :: int
  c_pickup_location_id :: int
  c_dropoff_location_id :: int
  c_trip_duration_minutes :: real

text \<open>Column comparisons: a comparison with a missing value is false.\<close>

definition col_gt :: "real option \<Rightarrow> real \<Rightarrow> bool" where
  "col_gt v c = (case v of None \<Rightarrow> False | Some x \<Rightarrow> c < x)"

definition col_lt :: "real option \<Rightarrow> real \<Rightarrow> bool" where
  "col_lt v c = (case v of None \<Rightarrow> False | Some x \<Rightarrow> x < c)"

definition col_le :: "real option \<Rightarrow> real \<Rightarrow> bool" where
  "col_le v c = (case v of None \<Rightarrow> False | Some x \<Rightarrow> x \<le> c)"

definition notna :: "'a option \<Rightarrow> bool" where
  "notna v = (v \<noteq> None)"

text \<open>The first filter, lines 84 to 91.\<close>

definition bounds_mask :: "raw_trip \<Rightarrow> bool" where
  "bounds_mask r =
     (col_gt (raw_trip_distance r) 0 \<and>
      col_lt (raw_trip_distance r) 100 \<and>
      col_gt (raw_passenger_count r) 0 \<and>
      col_le (raw_passenger_count r) 6 \<and>
      notna (raw_PULocationID r) \<and>
      notna (raw_DOLocationID r))"

text \<open>Lines 105 to 107: the difference of the two timestamps in seconds, over 60. The
  quotient is the exact one; the source computes it in floating point, within a rounding
  of it.\<close>

definition trip_duration_minutes :: "raw_trip \<Rightarrow> real option" where
  "trip_duration_minutes r =
     (case raw_lpep_pickup_datetime r of
        None \<Rightarrow> None
      | Some p \<Rightarrow>
          (case raw_lpep_dropoff_datetime r of
             None \<Rightarrow> None
           | Some d \<Rightarrow> Some (real_of_int (epoch_ns d - epoch_ns p) / 10 ^ 9 / 60)))"

text \<open>The second filter, line 110.\<close>

definition duration_mask :: "raw_trip \<Rightarrow> bool" where
  "duration_mask r =
     (col_gt (trip_duration_minutes r) 0 \<and> col_le (trip_duration_minutes r) 180)"

text \<open>What the two filters ask of the three bounded columns: a distance in \<open>(0, 100)\<close>,
  a passenger count in \<open>(0, 6]\<close> and a duration in \<open>(0, 180]\<close>.\<close>

definition within_bounds :: "raw_trip \<Rightarrow> bool" where
  "within_bounds r =
     (col_gt (raw_trip_distance r) 0 \<and> col_lt (raw_trip_distance r) 100 \<and>
      col_gt (raw_passenger_count r) 0 \<and> col_le (raw_passenger_count r) 6 \<and>
      col_gt (trip_duration_minutes r) 0 \<and> col_le (trip_duration_minutes r) 180)"

text \<open>\<open>astype(int)\<close> on a float column is the cast to a 64 bit int: it truncates
  towards zero, and a value out of the range of the type gives the smallest int of the
  type.\<close>

definition astype_int :: "real \<Rightarrow> int" where
  "astype_int x =
     (let t = (if 0 \<le> x then \<lfloor>x\<rfloor> else \<lceil>x\<rceil>)
      in if - (2 ^ 63) \<le> t \<and> t < 2 ^ 63 then t else - (2 ^ 63))"

text \<open>
  Lines 113 to 141 for one row: the derived columns, the selection of the eight columns
  and \<open>dropna\<close>, which discards a row with a missing value in any of them.
\<close>

definition select_row :: "raw_trip \<Rightarrow> trip option" where
  "select_row r =
     (case (raw_trip_distance r, raw_passenger_count r, raw_lpep_pickup_datetime r,
            raw_PULocationID r, raw_DOLocationID r, trip_duration_minutes r) of
        (Some td, Some pc, Some p, Some pu, Some dof, Some dur) \<Rightarrow>
          Some \<lparr>c_trip_distance = td, c_passenger_count = pc, c_hour = ts_hour p,
                c_day_of_week = ts_dayofweek p, c_month = ts_month p,
                c_pickup_location_id = astype_int pu, c_dropoff_location_id = astype_int dof,
                c_trip_duration_minutes = dur\<rparr>
      | _ \<Rightarrow> None)"

definition preprocess_data :: "raw_trip list \<Rightarrow> trip list" where
  "preprocess_data df =
     List.map_filter select_row (filter duration_mask (filter bounds_mask df))"

text \<open>
  \<open>ingest_data(month, save_processed=False)\<close>: the download and the read of the
  partition are the environment's (\<open>read_partition\<close>); a failed download raises.
\<close>

definition ingest_data :: "(string \<Rightarrow> py_error + raw_trip list) \<Rightarrow> string \<Rightarrow> py_error + trip list" where
  "ingest_data read_partition month_key =
     (case read_partition month_key of
        Inl e \<Rightarrow> Inl e
      | Inr df \<Rightarrow> Inr (preprocess_data df))"

section \<open>Sampling live predictions (\<open>src/drift_detector.py\<close>)\<close>

text \<open>
  One pass of the loop body of \<open>get_predictions_from_api\<close>, lines 79 to 89. A row of
  the result is the generated trip with its \<open>predicted_duration\<close>. The trip is appended
  with the served prediction on status 200, with the mock prediction when the \<open>try\<close>
  block raises (the request, \<open>response.json()\<close> or the subscript), and not at all on
  any other status: the \<open>if\<close> has no \<open>else\<close>.
\<close>

definition sample_once ::
  "py_error + response \<Rightarrow> 't \<Rightarrow> real \<Rightarrow> ('t \<times> pyval) list \<Rightarrow> ('t \<times> pyval) list" where
  "sample_once outcome trip mock data =
     (case outcome of
        Inl e \<Rightarrow> data @ [(trip, PyFloat mock)]
      | Inr resp \<Rightarrow>
          if status_code resp = 200 then
            (case json_body resp of
               Inl e \<Rightarrow> data @ [(trip, PyFloat mock)]
             | Inr result \<Rightarrow>
                 (case py_getitem result ''predicted_duration_minutes'' of
                    Inl e \<Rightarrow> data @ [(trip, PyFloat mock)]
                  | Inr v \<Rightarrow> data @ [(trip, v)]))
          else data)"

text \<open>
  The loop over \<open>range(n_samples)\<close>. The random draws are the environment's: \<open>gen i\<close>
  is the trip of pass \<open>i\<close> and \<open>mock i\<close> the mock prediction drawn in it; \<open>post\<close> is
  the serving API as seen through \<open>requests.post\<close>.
\<close>

fun sample_loop ::
  "(nat \<Rightarrow> 't) \<Rightarrow> (nat \<Rightarrow> 't \<Rightarrow> py_error + response) \<Rightarrow> (nat \<Rightarrow> real) \<Rightarrow>
   nat list \<Rightarrow> ('t \<times> pyval) list \<Rightarrow> ('t \<times> pyval) list" where
  "sample_loop gen post mock [] data = data"
| "sample_loop gen post mock (i # rest) data =
     sample_loop gen post mock rest (sample_once (post i (gen i)) (gen i) (mock i) data)"

definition get_predictions_from_api ::
  "(nat \<Rightarrow> 't) \<Rightarrow> (string \<Rightarrow> nat \<Rightarrow> 't \<Rightarrow> py_error + response) \<Rightarrow> (nat \<Rightarrow> real) \<Rightarrow>
   string \<Rightarrow> int \<Rightarrow> ('t \<times> pyval) list" where
  "get_predictions_from_api gen post mock api_url n_samples =
     sample_loop gen (post (api_url @ ''/predict'')) mock [0..<nat n_samples] []"

section \<open>The monitoring cycle (\<open>src/drift_detector.py\<close>)\<close>

text \<open>
  The two kinds of frame \<open>monitor_drift\<close> hands to the drift check, and the
  collaborators of one cycle: the partition store, the serving API with the random draws
  of the sampler, the drift library, and the orchestration service with its address.
\<close>

datatype 't dataframe = CleanedFrame "trip list" | PredictionFrame "('t \<times> pyval) list"

fun len_df :: "'t dataframe \<Rightarrow> nat" where
  "len_df (CleanedFrame rows) = length rows"
| "len_df (PredictionFrame rows) = length rows"

record 't environment =
  read_partition :: "string \<Rightarrow> py_error + raw_trip list"
  gen_trip :: "nat \<Rightarrow> 't"
  api_post :: "string \<Rightarrow> nat \<Rightarrow> 't \<Rightarrow> py_error + response"
  mock_prediction :: "nat \<Rightarrow> real"
  drift_report :: "'t dataframe \<Rightarrow> 't dataframe \<Rightarrow> py_error + pyval"
  airflow_post :: "string \<Rightarrow> py_error + response"
  airflow_url :: string
  dag_id :: string

text \<open>Lines 252 to 258: \<open>if current_month\<close> is false for \<open>None\<close> and for the empty
  string.\<close>

definition current_sample ::
  "'t environment \<Rightarrow> string option \<Rightarrow> string \<Rightarrow> int \<Rightarrow> py_error + 't dataframe" where
  "current_sample env current_month api_url n_samples =
     (case current_month of
        Some m \<Rightarrow>
          if m \<noteq> [] then
            (case ingest_data (read_partition env) m of
               Inl e \<Rightarrow> Inl e
             | Inr df \<Rightarrow> Inr (CleanedFrame df))
          else Inr (PredictionFrame
                 (get_predictions_from_api (gen_trip env) (api_post env) (mock_prediction env)
                    api_url n_samples))
      | None \<Rightarrow>
          Inr (PredictionFrame
            (get_predictions_from_api (gen_trip env) (api_post env) (mock_prediction env)
               api_url n_samples)))"

text \<open>The drift check as \<open>monitor_drift\<close> calls it, on the two frames.\<close>

definition cycle_verdict ::
  "'t environment \<Rightarrow> trip list \<Rightarrow> 't dataframe \<Rightarrow> real \<Rightarrow> py_error + (bool \<times> drift_info)" where
  "cycle_verdict env reference_data current_data th =
     check_drift (drift_report env (CleanedFrame reference_data) current_data) th
       (length reference_data) (len_df current_data)"

definition monitor_drift ::
  "'t environment \<Rightarrow> string \<Rightarrow> string option \<Rightarrow> string \<Rightarrow> real \<Rightarrow> int \<Rightarrow> world \<Rightarrow>
   py_error + (bool \<times> world)" where
  "monitor_drift env reference_month current_month api_url th n_samples w =
     (case ingest_data (read_partition env) reference_month of
        Inl e \<Rightarrow> Inl e
      | Inr reference_data \<Rightarrow>
          (case current_sample env current_month api_url n_samples of
             Inl e \<Rightarrow> Inl e
           | Inr current_data \<Rightarrow>
               (case cycle_verdict env reference_data current_data th of
                  Inl e \<Rightarrow> Inl e
                | Inr (detected, info) \<Rightarrow>
                    if detected then
                      Inr (True,
                           snd (trigger_retraining (airflow_url env) (dag_id env)
                                  (airflow_post env) w))
                    else Inr (False, w))))"

section \<open>Model serving (\<open>src/serve.py\<close>)\<close>

text \<open>
  \<open>TripRequest\<close> and \<open>TripResponse\<close>, with the field constraints the class declares:
  \<open>gt=0\<close> on the distance, \<open>ge\<close> and \<open>le\<close> on the integers. The web framework checks
  them on the request body before it calls the handler and answers a violation itself,
  with the names of the offending fields.
\<close>

record TripRequest =
  trip_distance :: real
  passenger_count :: int
  hour :: int
  day_of_week :: int
  month :: int
  pickup_location_id :: int
  dropoff_location_id :: int

record TripResponse =
  predicted_duration_minutes :: real
  model_version :: string

definition field_errors :: "TripRequest \<Rightarrow> string list" where
  "field_errors t =
     (if 0 < trip_distance t then [] else [''trip_distance'']) @
     (if 1 \<le> passenger_count t \<and> passenger_count t \<le> 6 then [] else [''passenger_count'']) @
     (if 0 \<le> hour t \<and> hour t \<le> 23 then [] else [''hour'']) @
     (if 0 \<le> day_of_week t \<and> day_of_week t \<le> 6 then [] else [''day_of_week'']) @
     (if 1 \<le> month t \<and> month t \<le> 12 then [] else [''month'']) @
     (if 1 \<le> pickup_location_id t then [] else [''pickup_location_id'']) @
     (if 1 \<le> dropoff_location_id t then [] else [''dropoff_location_id''])"

text \<open>A request that breaks one of the declared constraints.\<close>

definition violates_bound :: "TripRequest \<Rightarrow> bool" where
  "violates_bound t =
     (\<not> 0 < trip_distance t \<or> passenger_count t < 1 \<or> 6 < passenger_count t \<or>
      hour t < 0 \<or> 23 < hour t \<or> day_of_week t < 0 \<or> 6 < day_of_week t \<or>
      month t < 1 \<or> 12 < month t \<or> pickup_location_id t < 1 \<or> dropoff_location_id t < 1)"

text \<open>The three answers of an endpoint: 200 with a body, the framework's
  request-validation failure, and the handler's \<open>HTTPException(status_code=500)\<close>.\<close>

datatype 'a http_result = Ok200 'a | ValidationFailure "string list" | ServerError500 py_error

text \<open>
  The frame handed to the model. \<open>pd.DataFrame(rows, columns=features)\<close> raises
  \<open>ValueError\<close> when a row and the column list differ in length. The loaded model is
  its \<open>predict\<close> method: it raises or returns an array of predictions.
\<close>

record feature_frame =
  frame_columns :: "string list"
  frame_rows :: "real list list"

definition pd_DataFrame :: "real list list \<Rightarrow> string list \<Rightarrow> py_error + feature_frame" where
  "pd_DataFrame rows cols =
     (if list_all (\<lambda>r. length r = length cols) rows
      then Inr \<lparr>frame_columns = cols, frame_rows = rows\<rparr>
      else Inl ValueError)"

definition feature_values :: "TripRequest \<Rightarrow> real list" where
  "feature_values t =
     [trip_distance t, real_of_int (passenger_count t), real_of_int (hour t),
      real_of_int (day_of_week t), real_of_int (month t),
      real_of_int (pickup_location_id t), real_of_int (dropoff_location_id t)]"

text \<open>The handler of \<open>POST /predict\<close>: \<open>model.predict(X)[0]\<close> raises \<open>IndexError\<close> on
  an empty array, and every exception becomes a 500.\<close>

definition predict ::
  "(feature_frame \<Rightarrow> py_error + real list) \<Rightarrow> string list \<Rightarrow> string \<Rightarrow> TripRequest \<Rightarrow>
   TripResponse http_result" where
  "predict model features version t =
     (case pd_DataFrame [feature_values t] features of
        Inl e \<Rightarrow> ServerError500 e
      | Inr X \<Rightarrow>
          (case model X of
             Inl e \<Rightarrow> ServerError500 e
           | Inr predictions \<Rightarrow>
               (case predictions of
                  [] \<Rightarrow> ServerError500 IndexError
                | prediction # _ \<Rightarrow>
                    Ok200 \<lparr>predicted_duration_minutes = prediction, model_version = version\<rparr>)))"

text \<open>The handler of \<open>POST /predict_batch\<close>. It answers with a list of dicts that have
  the two keys of \<open>TripResponse\<close>, one for each prediction the model returns.\<close>

definition predict_batch ::
  "(feature_frame \<Rightarrow> py_error + real list) \<Rightarrow> string list \<Rightarrow> string \<Rightarrow> TripRequest list \<Rightarrow>
   TripResponse list http_result" where
  "predict_batch model features version trips =
     (case pd_DataFrame (map feature_values trips) features of
        Inl e \<Rightarrow> ServerError500 e
      | Inr X \<Rightarrow>
          (case model X of
             Inl e \<Rightarrow> ServerError500 e
           | Inr predictions \<Rightarrow>
               Ok200 (map (\<lambda>pred. \<lparr>predicted_duration_minutes = pred, model_version = version\<rparr>)
                        predictions)))"

text \<open>The two routes: validation of the body by the framework, then the handler.\<close>

definition post_predict ::
  "(feature_frame \<Rightarrow> py_error + real list) \<Rightarrow> string list \<Rightarrow> string \<Rightarrow> TripRequest \<Rightarrow>
   TripResponse http_result" where
  "post_predict model features version body =
     (if field_errors body = [] then predict model features version body
      else ValidationFailure (field_errors body))"

definition post_predict_batch ::
  "(feature_frame \<Rightarrow> py_error + real list) \<Rightarrow> string list \<Rightarrow> string \<Rightarrow> TripRequest list \<Rightarrow>
   TripResponse list http_result" where
  "post_predict_batch model features version body =
     (if concat (map field_errors body) = [] then predict_batch model features version body
      else ValidationFailure (concat (map field_errors body)))"

section \<open>Concrete inputs\<close>

text \<open>A drift report with one \<open>DatasetDriftMetric\<close> entry whose \<open>dataset_drift\<close> is
  the given value, and an int beyond the range of a double.\<close>

definition example_report :: "pyval \<Rightarrow> pyval" where
  "example_report v =
     PyDict [(''metrics'',
       PyList [PyDict [(''metric'', PyStr ''DatasetDriftMetric''),
                       (''result'', PyDict [(''dataset_drift'', v)])]])]"

definition huge_int :: int where
  "huge_int = 2 ^ 1024"

text \<open>Two reports whose \<open>DatasetDriftMetric\<close> entry is incomplete: one without a
  \<open>result\<close>, one whose \<open>result\<close> has no \<open>dataset_drift\<close>.\<close>

definition report_without_result :: pyval where
  "report_without_result =
     PyDict [(''metrics'', PyList [PyDict [(''metric'', PyStr ''DatasetDriftMetric'')]])]"

definition report_without_dataset_drift :: pyval where
  "report_without_dataset_drift =
     PyDict [(''metrics'',
       PyList [PyDict [(''metric'', PyStr ''DatasetDriftMetric''),
                       (''result'', PyDict [(''number_of_columns'', PyInt 7)])]])]"

text \<open>An orchestration service that accepts the run, one that answers 401 and one that
  cannot be reached; a world without files.\<close>

definition airflow_accepts :: "string \<Rightarrow> py_error + response" where
  "airflow_accepts url = Inr \<lparr>status_code = 200, json_body = Inr (PyDict [])\<rparr>"

definition airflow_rejects :: "string \<Rightarrow> py_error + response" where
  "airflow_rejects url = Inr \<lparr>status_code = 401, json_body = Inr (PyDict [])\<rparr>"

definition airflow_unreachable :: "string \<Rightarrow> py_error + response" where
  "airflow_unreachable url = Inl RequestException"

definition empty_world :: world where
  "empty_world = \<lparr>files = {}, rest_calls = []\<rparr>"

text \<open>A serving API that answers every request with status 500 and one that cannot be
  reached; the trips and mock predictions of the sampler; a partition store without rows;
  a drift library that reports dataset drift.\<close>

definition api_status_500 :: "string \<Rightarrow> nat \<Rightarrow> nat \<Rightarrow> py_error + response" where
  "api_status_500 url i trip = Inr \<lparr>status_code = 500, json_body = Inl ValueError\<rparr>"

definition api_unreachable :: "string \<Rightarrow> nat \<Rightarrow> nat \<Rightarrow> py_error + response" where
  "api_unreachable url i trip = Inl RequestException"

definition gen_index :: "nat \<Rightarrow> nat" where
  "gen_index i = i"

definition mock_thirty :: "nat \<Rightarrow> real" where
  "mock_thirty i = 30"

definition no_rows :: "string \<Rightarrow> py_error + raw_trip list" where
  "no_rows month_key = Inr []"

definition reports_drift :: "nat dataframe \<Rightarrow> nat dataframe \<Rightarrow> py_error + pyval" where
  "reports_drift reference_data current_data = Inr (example_report (PyBool True))"

definition example_env :: "nat environment" where
  "example_env =
     \<lparr>read_partition = no_rows, gen_trip = gen_index, api_post = api_unreachable,
      mock_prediction = mock_thirty, drift_report = reports_drift,
      airflow_post = airflow_unreachable, airflow_url = ''http://localhost:8080'',
      dag_id = ''retrain_model_dag''\<rparr>"

text \<open>A raw row of a ten minute ride over one mile with the given passenger count, and
  the cleaned row it becomes.\<close>

definition ten_minute_ride :: "real \<Rightarrow> raw_trip" where
  "ten_minute_ride pc =
     \<lparr>raw_trip_distance = Some 1, raw_passenger_count = Some pc, raw_PULocationID = Some 74,
      raw_DOLocationID = Some 75,
      raw_lpep_pickup_datetime =
        Some \<lparr>epoch_ns = 0, ts_hour = 0, ts_dayofweek = 3, ts_month = 1\<rparr>,
      raw_lpep_dropoff_datetime =
        Some \<lparr>epoch_ns = 600000000000, ts_hour = 0, ts_dayofweek = 3, ts_month = 1\<rparr>\<rparr>"

definition cleaned_ten_minute_ride :: "real \<Rightarrow> trip" where
  "cleaned_ten_minute_ride pc =
     \<lparr>c_trip_distance = 1, c_passenger_count = pc, c_hour = 0, c_day_of_week = 3, c_month = 1,
      c_pickup_location_id = 74, c_dropoff_location_id = 75, c_trip_duration_minutes = 10\<rparr>"

text \<open>The seven feature names, a model that predicts the same duration for every row,
  and the request with every field at its minimum.\<close>

definition config_features :: "string list" where
  "config_features =
     [''trip_distance'', ''passenger_count'', ''hour'', ''day_of_week'', ''month'',
      ''pickup_location_id'', ''dropoff_location_id'']"

definition constant_model :: "real \<Rightarrow> feature_frame \<Rightarrow> py_error + real list" where
  "constant_model p X = Inr (map (\<lambda>row. p) (frame_rows X))"

definition minimum_request :: TripRequest where
  "minimum_request =
     \<lparr>trip_distance = 1 / 10, passenger_count = 1, hour = 0, day_of_week = 0, month = 1,
      pickup_location_id = 1, dropoff_location_id = 1\<rparr>"

section \<open>Properties of the drift check\<close>


lemma find_dataset_drift_example: "find_dataset_drift (example_report v) = Inr (Some v)"
  by (simp add: example_report_def find_dataset_drift_def)

text \<open>Entries before the first \<open>DatasetDriftMetric\<close> entry are passed over, whatever
  else they hold.\<close>

lemma scan_metrics_skip:
  assumes "\<forall>m \<in> set pre. \<exists>kvs. m = PyDict kvs \<and>
             map_of kvs ''metric'' \<noteq> Some (PyStr ''DatasetDriftMetric'')"
  shows "scan_metrics (pre @ rest) = scan_metrics rest"
  using assms
proof (induction pre)
  case Nil
  then show ?case by simp
next
  case (Cons m pre)
  then obtain kvs where m: "m = PyDict kvs"
    and k: "map_of kvs ''metric'' \<noteq> Some (PyStr ''DatasetDriftMetric'')"
    by auto
  from Cons have ih: "scan_metrics (pre @ rest) = scan_metrics rest" by simp
  show ?case using m k ih by (simp split: option.splits)
qed

text \<open>The raw dataset-level result of a report in the shape the drift library produces.\<close>

lemma find_dataset_drift_shape:
  assumes "map_of report ''metrics'' = Some (PyList (pre @ PyDict entry # post))"
      and "\<forall>m \<in> set pre. \<exists>kvs. m = PyDict kvs \<and>
             map_of kvs ''metric'' \<noteq> Some (PyStr ''DatasetDriftMetric'')"
      and "map_of entry ''metric'' = Some (PyStr ''DatasetDriftMetric'')"
      and "map_of entry ''result'' = Some (PyDict res)"
      and "map_of res ''dataset_drift'' = Some raw"
  shows "find_dataset_drift (PyDict report) = Inr (Some raw)"
  using assms by (simp add: find_dataset_drift_def scan_metrics_skip)

text \<open>
  \<open>float\<close> of an int raises exactly from \<open>2 ^ 1024 - 2 ^ 970\<close> on, the midpoint
  between the largest double and \<open>2 ^ 1024\<close>, and is exact below \<open>2 ^ 53\<close>.
\<close>

lemma round_magnitude_nonneg: "0 \<le> a \<Longrightarrow> 0 \<le> round_magnitude a"
  by (auto simp add: round_magnitude_def Let_def pos_imp_zdiv_nonneg_iff)

lemma round_to_double_abs: "\<bar>round_to_double i\<bar> = round_magnitude \<bar>i\<bar>"
proof (cases "i = 0")
  case True
  then show ?thesis by (simp add: round_to_double_def round_magnitude_def)
next
  case False
  have "round_to_double i = sgn i * round_magnitude \<bar>i\<bar>"
    by (simp add: round_to_double_def)
  moreover have "0 \<le> round_magnitude \<bar>i\<bar>" by (rule round_magnitude_nonneg) simp
  ultimately show ?thesis using False by (simp add: abs_mult)
qed

lemma round_magnitude_upper:
  assumes "0 \<le> a"
  shows "round_magnitude a \<le> a + 2 ^ nat (bitlen a - 53)"
proof -
  define e where "e = nat (bitlen a - 53)"
  have "(a div 2 ^ e) * 2 ^ e + a mod 2 ^ e = a" by (rule div_mult_mod_eq)
  moreover have "0 \<le> a mod (2::int) ^ e" by simp
  ultimately have le: "(a div 2 ^ e) * 2 ^ e \<le> a" by linarith
  then have le1: "(a div 2 ^ e + 1) * 2 ^ e \<le> a + 2 ^ e" by (simp add: algebra_simps)
  have "(0::int) \<le> 2 ^ e" by simp
  with le have le2: "(a div 2 ^ e) * 2 ^ e \<le> a + 2 ^ e" by linarith
  show ?thesis
    unfolding round_magnitude_def Let_def e_def [symmetric]
    using le1 le2 by (simp split: if_splits)
qed

lemma round_magnitude_lower:
  assumes "0 \<le> a"
  shows "(a div 2 ^ nat (bitlen a - 53)) * 2 ^ nat (bitlen a - 53) \<le> round_magnitude a"
  unfolding round_magnitude_def Let_def by (auto simp add: algebra_simps)

lemma no_overflow_small:
  assumes "0 \<le> a" "a < 2 ^ 1023"
  shows "round_magnitude a < 2 ^ 1024"
proof -
  have "bitlen a \<le> 1023" using assms by (simp add: bitlen_le_iff_power)
  then have "nat (bitlen a - 53) \<le> 970" by simp
  then have "(2::int) ^ nat (bitlen a - 53) \<le> 2 ^ 970"
    by (rule power_increasing) simp
  with round_magnitude_upper [OF assms(1)] have "round_magnitude a \<le> a + 2 ^ 970" by linarith
  with assms(2) show ?thesis by simp
qed

lemma overflow_large:
  assumes "2 ^ 1024 \<le> a"
  shows "2 ^ 1024 \<le> round_magnitude a"
proof -
  have "(0::int) < 2 ^ 1024" by simp
  with assms have pos: "0 < a" by linarith
  have n: "1025 \<le> bitlen a" using assms by (simp add: bitlen_ge_iff_power)
  define e where "e = nat (bitlen a - 53)"
  have e: "bitlen a - 1 = 52 + int e" using n by (simp add: e_def)
  have "2 ^ nat (bitlen a - 1) \<le> a" using bitlen_bounds [OF pos] by simp
  moreover have "nat (bitlen a - 1) = 52 + e" using e by linarith
  ultimately have le: "(2::int) ^ 52 * 2 ^ e \<le> a" by (simp add: power_add)
  have "(2::int) ^ 52 = (2 ^ 52 * 2 ^ e) div 2 ^ e" by simp
  also have "\<dots> \<le> a div 2 ^ e" using le by (rule zdiv_mono1) simp
  finally have "(2::int) ^ 52 * 2 ^ e \<le> (a div 2 ^ e) * 2 ^ e" by simp
  moreover have "(2::int) ^ 1024 \<le> 2 ^ 52 * 2 ^ e"
  proof -
    have "1024 \<le> 52 + e" using n e by linarith
    then have "(2::int) ^ 1024 \<le> 2 ^ (52 + e)" by (rule power_increasing) simp
    then show ?thesis by (simp add: power_add)
  qed
  moreover have "(a div 2 ^ e) * 2 ^ e \<le> round_magnitude a"
    using round_magnitude_lower [of a] pos by (simp add: e_def)
  ultimately show ?thesis by linarith
qed

lemma overflow_top_binade:
  assumes "2 ^ 1023 \<le> a" "a < 2 ^ 1024"
  shows "2 ^ 1024 \<le> round_magnitude a \<longleftrightarrow> 2 ^ 1024 - 2 ^ 970 \<le> a"
proof -
  have "bitlen a \<le> 1024" using assms by (simp add: bitlen_le_iff_power)
  moreover have "1024 \<le> bitlen a" using assms by (simp add: bitlen_ge_iff_power)
  ultimately have e: "nat (bitlen a - 53) = 971" by simp
  define q where "q = a div 2 ^ 971"
  define r where "r = a mod 2 ^ 971"
  have a: "a = q * 2 ^ 971 + r" by (simp add: q_def r_def)
  have r: "0 \<le> r" "r < 2 ^ 971" by (simp_all add: r_def)
  have q: "q < 2 ^ 53"
  proof (rule ccontr)
    assume "\<not> q < 2 ^ 53"
    then have "2 ^ 53 \<le> q" by simp
    then have "2 ^ 53 * (2::int) ^ 971 \<le> q * 2 ^ 971" by (rule mult_right_mono) simp
    with a r(1) assms(2) show False by simp
  qed
  have rm: "round_magnitude a =
          (if 2 * r > 2 ^ 971 \<or> (2 * r = 2 ^ 971 \<and> odd q) then q + 1 else q) * 2 ^ 971"
    by (simp add: round_magnitude_def Let_def e q_def r_def)
  show ?thesis
  proof (cases "q = 2 ^ 53 - 1")
    case True
    then have "odd q" by simp
    with True a r rm show ?thesis by auto
  next
    case False
    with q have "q + 1 < 2 ^ 53" by simp
    then have "(q + 1) * 2 ^ 971 < 2 ^ 53 * (2::int) ^ 971" by simp
    moreover have "q * 2 ^ 971 \<le> (q + 1) * (2::int) ^ 971" by simp
    ultimately have "round_magnitude a < 2 ^ 1024" using rm by auto
    moreover have "a < 2 ^ 1024 - 2 ^ 970" using a r \<open>q + 1 < 2 ^ 53\<close> by simp
    ultimately show ?thesis by simp
  qed
qed

lemma py_float_of_int_overflow_iff:
  "py_float_of_int i = Inl OverflowError \<longleftrightarrow> 2 ^ 1024 - 2 ^ 970 \<le> \<bar>i\<bar>"
proof -
  have "2 ^ 1024 \<le> round_magnitude \<bar>i\<bar> \<longleftrightarrow> 2 ^ 1024 - 2 ^ 970 \<le> \<bar>i\<bar>"
  proof -
    consider "\<bar>i\<bar> < 2 ^ 1023" | "2 ^ 1023 \<le> \<bar>i\<bar>" "\<bar>i\<bar> < 2 ^ 1024" | "2 ^ 1024 \<le> \<bar>i\<bar>"
      by linarith
    then show ?thesis
    proof cases
      case 1
      with no_overflow_small [of "\<bar>i\<bar>"] show ?thesis by simp
    next
      case 2
      then show ?thesis by (rule overflow_top_binade)
    next
      case 3
      with overflow_large [of "\<bar>i\<bar>"] show ?thesis by simp
    qed
  qed
  then show ?thesis by (simp add: py_float_of_int_def round_to_double_abs)
qed

lemma py_float_of_int_exact:
  assumes "\<bar>i\<bar> < 2 ^ 53"
  shows "py_float_of_int i = Inr (real_of_int i)"
proof -
  have "bitlen \<bar>i\<bar> \<le> 53" using assms by (simp add: bitlen_le_iff_power)
  then have "nat (bitlen \<bar>i\<bar> - 53) = 0" by simp
  then have "round_to_double i = i"
    by (simp add: round_to_double_def round_magnitude_def Let_def mult_sgn_abs)
  with assms show ?thesis by (simp add: py_float_of_int_def)
qed

lemma py_float_of_int_in_range:
  assumes "\<bar>i\<bar> < 2 ^ 1024 - 2 ^ 970"
  shows "py_float_of_int i = Inr (real_of_int (round_to_double i))"
proof -
  from assms have "py_float_of_int i \<noteq> Inl OverflowError"
    by (simp add: py_float_of_int_overflow_iff)
  then show ?thesis by (simp add: py_float_of_int_def split: if_splits)
qed

lemma py_float_of_int_huge: "py_float_of_int huge_int = Inl OverflowError"
  by code_simp

text \<open>
  A numeric result above the threshold that is not reported as drift: \<open>float\<close> of an int
  this large raises \<open>OverflowError\<close> after \<open>drift_detected\<close> was assigned, and the
  \<open>except\<close> clause resets the flag.
\<close>

theorem check_drift_huge_int_counterexample:
  "check_drift (Inr (example_report (PyInt huge_int))) (1 / 2) 0 0 =
     Inr (False, \<lparr>drift_detected = False, drift_score = PyInt huge_int, threshold = 1 / 2,
                  reference_samples = 0, current_samples = 0\<rparr>)
   \<and> (1 / 2 :: real) < real_of_int huge_int"
proof
  show "check_drift (Inr (example_report (PyInt huge_int))) (1 / 2) 0 0 =
     Inr (False, \<lparr>drift_detected = False, drift_score = PyInt huge_int, threshold = 1 / 2,
                  reference_samples = 0, current_samples = 0\<rparr>)"
    by (simp add: check_drift_def try_extract_def find_dataset_drift_example interpret_raw_def
          py_float_of_int_huge Let_def)
  have "(1::int) \<le> huge_int" by (simp add: huge_int_def)
  then show "(1 / 2 :: real) < real_of_int huge_int" by linarith
qed

text \<open>
  C1 (amended). When the dataset-level result of the report is a boolean, it is the
  detected flag. When it is a float, or an int of magnitude below \<open>2 ^ 1024 - 2 ^ 970\<close>,
  which \<open>float\<close> converts, the flag is true exactly when the score is strictly greater
  than the threshold, so a score equal to the threshold gives false, and the verdict keeps
  the score as a float. When it is an int of greater magnitude, \<open>float\<close> raises inside
  the \<open>try\<close> block: the flag is false and the verdict keeps the int.
\<close>

theorem check_drift_interprets_result:
  assumes "find_dataset_drift report_dict = Inr (Some raw)"
  shows "(\<forall>b. raw = PyBool b \<longrightarrow>
            check_drift (Inr report_dict) th n_ref n_cur =
              Inr (b, \<lparr>drift_detected = b, drift_score = PyBool b, threshold = th,
                       reference_samples = n_ref, current_samples = n_cur\<rparr>))
       \<and> (\<forall>x. raw = PyFloat x \<longrightarrow>
            check_drift (Inr report_dict) th n_ref n_cur =
              Inr (th < x, \<lparr>drift_detected = th < x, drift_score = PyFloat x, threshold = th,
                            reference_samples = n_ref, current_samples = n_cur\<rparr>))
       \<and> (\<forall>i. raw = PyInt i \<and> \<bar>i\<bar> < 2 ^ 1024 - 2 ^ 970 \<longrightarrow>
            check_drift (Inr report_dict) th n_ref n_cur =
              Inr (th < real_of_int i,
                   \<lparr>drift_detected = th < real_of_int i,
                    drift_score = PyFloat (real_of_int (round_to_double i)), threshold = th,
                    reference_samples = n_ref, current_samples = n_cur\<rparr>))
       \<and> (\<forall>i. raw = PyInt i \<and> 2 ^ 1024 - 2 ^ 970 \<le> \<bar>i\<bar> \<longrightarrow>
            check_drift (Inr report_dict) th n_ref n_cur =
              Inr (False, \<lparr>drift_detected = False, drift_score = PyInt i, threshold = th,
                           reference_samples = n_ref, current_samples = n_cur\<rparr>))"
proof (intro conjI allI impI)
  fix b
  assume "raw = PyBool b"
  with assms show "check_drift (Inr report_dict) th n_ref n_cur =
              Inr (b, \<lparr>drift_detected = b, drift_score = PyBool b, threshold = th,
                       reference_samples = n_ref, current_samples = n_cur\<rparr>)"
    by (simp add: check_drift_def try_extract_def interpret_raw_def Let_def)
next
  fix x
  assume "raw = PyFloat x"
  with assms show "check_drift (Inr report_dict) th n_ref n_cur =
              Inr (th < x, \<lparr>drift_detected = th < x, drift_score = PyFloat x, threshold = th,
                            reference_samples = n_ref, current_samples = n_cur\<rparr>)"
    by (simp add: check_drift_def try_extract_def interpret_raw_def Let_def)
next
  fix i
  assume a: "raw = PyInt i \<and> \<bar>i\<bar> < 2 ^ 1024 - 2 ^ 970"
  then have "py_float_of_int i = Inr (real_of_int (round_to_double i))"
    by (simp add: py_float_of_int_in_range)
  with assms a show "check_drift (Inr report_dict) th n_ref n_cur =
              Inr (th < real_of_int i,
                   \<lparr>drift_detected = th < real_of_int i,
                    drift_score = PyFloat (real_of_int (round_to_double i)), threshold = th,
                    reference_samples = n_ref, current_samples = n_cur\<rparr>)"
    by (simp add: check_drift_def try_extract_def interpret_raw_def Let_def)
next
  fix i
  assume a: "raw = PyInt i \<and> 2 ^ 1024 - 2 ^ 970 \<le> \<bar>i\<bar>"
  then have "py_float_of_int i = Inl OverflowError"
    by (simp add: py_float_of_int_overflow_iff)
  with assms a show "check_drift (Inr report_dict) th n_ref n_cur =
              Inr (False, \<lparr>drift_detected = False, drift_score = PyInt i, threshold = th,
                           reference_samples = n_ref, current_samples = n_cur\<rparr>)"
    by (simp add: check_drift_def try_extract_def interpret_raw_def Let_def)
qed

text \<open>The boundary, a float score equal to the threshold of one half, and an int score
  of one above it.\<close>

theorem check_drift_interprets_result_witness:
  "find_dataset_drift (example_report (PyFloat (1 / 2))) = Inr (Some (PyFloat (1 / 2)))
   \<and> check_drift (Inr (example_report (PyFloat (1 / 2)))) (1 / 2) 10 10 =
       Inr (False, \<lparr>drift_detected = False, drift_score = PyFloat (1 / 2), threshold = 1 / 2,
                    reference_samples = 10, current_samples = 10\<rparr>)
   \<and> find_dataset_drift (example_report (PyInt 1)) = Inr (Some (PyInt 1))
   \<and> check_drift (Inr (example_report (PyInt 1))) (1 / 2) 10 10 =
       Inr (True, \<lparr>drift_detected = True, drift_score = PyFloat 1, threshold = 1 / 2,
                   reference_samples = 10, current_samples = 10\<rparr>)"
proof -
  have r: "round_to_double 1 = 1"
    using py_float_of_int_exact [of 1] by (simp add: py_float_of_int_def split: if_splits)
  show ?thesis
    using check_drift_interprets_result
            [OF find_dataset_drift_example, of "PyFloat (1 / 2)" "1 / 2" 10 10]
          check_drift_interprets_result
            [OF find_dataset_drift_example, of "PyInt 1" "1 / 2" 10 10]
    by (simp add: find_dataset_drift_example r)
qed

text \<open>
  A result of unexpected shape, the string \<open>high\<close>: no exception and no drift, but the
  score of the verdict is the string, not \<open>0.0\<close>.
\<close>

theorem check_drift_score_not_zero_counterexample:
  "check_drift (Inr (example_report (PyStr ''high''))) (1 / 2) 0 0 =
     Inr (False, \<lparr>drift_detected = False, drift_score = PyStr ''high'', threshold = 1 / 2,
                  reference_samples = 0, current_samples = 0\<rparr>)
   \<and> PyStr ''high'' \<noteq> PyFloat 0"
  by (simp add: check_drift_def try_extract_def find_dataset_drift_example interpret_raw_def
        Let_def)

text \<open>The verdict in terms of what the walk through the report found.\<close>

lemma scan_metrics_passed_over:
  assumes "\<forall>m \<in> set pre. passed_over m"
  shows "scan_metrics (pre @ rest) = scan_metrics rest"
  using assms
proof (induction pre)
  case Nil
  then show ?case by simp
next
  case (Cons m pre)
  then have "passed_over m" and ih: "scan_metrics (pre @ rest) = scan_metrics rest" by simp_all
  then show ?case
    by (cases m) (simp_all add: passed_over_def split: option.splits)
qed

lemma find_dataset_drift_items:
  assumes "map_of kvs ''metrics'' = Some m" "py_iter m = Inr (pre @ rest)"
    "\<forall>x \<in> set pre. passed_over x"
  shows "find_dataset_drift (PyDict kvs) = scan_metrics rest"
  using assms by (simp add: find_dataset_drift_def scan_metrics_passed_over)

lemma check_drift_no_result:
  assumes "find_dataset_drift report_dict = Inr None \<or> (\<exists>e. find_dataset_drift report_dict = Inl e)"
  shows "check_drift (Inr report_dict) th n_ref n_cur = no_drift_verdict (PyFloat 0) th n_ref n_cur"
  using assms by (auto simp add: check_drift_def try_extract_def no_drift_verdict_def Let_def)

lemma check_drift_raw_false:
  assumes "find_dataset_drift report_dict = Inr (Some (PyBool False))"
  shows "check_drift (Inr report_dict) th n_ref n_cur = no_drift_verdict (PyBool False) th n_ref n_cur"
  using assms by (simp add: check_drift_def try_extract_def interpret_raw_def no_drift_verdict_def Let_def)

lemma check_drift_raw_unexpected:
  assumes f: "find_dataset_drift report_dict = Inr (Some raw)"
    and nb: "\<forall>b. raw \<noteq> PyBool b" and nf: "\<forall>x. raw \<noteq> PyFloat x"
    and ni: "\<forall>i. raw = PyInt i \<longrightarrow> 2 ^ 1024 - 2 ^ 970 \<le> \<bar>i\<bar>"
  shows "check_drift (Inr report_dict) th n_ref n_cur = no_drift_verdict raw th n_ref n_cur"
proof (cases raw)
  case (PyInt i)
  with ni have "2 ^ 1024 - 2 ^ 970 \<le> \<bar>i\<bar>" by blast
  then have "py_float_of_int i = Inl OverflowError"
    by (simp only: py_float_of_int_overflow_iff)
  with f PyInt show ?thesis
    by (simp add: check_drift_def try_extract_def interpret_raw_def no_drift_verdict_def Let_def)
qed (use f nb nf in \<open>simp_all add: check_drift_def try_extract_def interpret_raw_def
      no_drift_verdict_def Let_def\<close>)

text \<open>Where a raw result comes from: the first \<open>DatasetDriftMetric\<close> entry, and either
  the \<open>dataset_drift\<close> value of its \<open>result\<close> or the default \<open>False\<close>.\<close>

lemma scan_metrics_Some:
  assumes "scan_metrics ms = Inr (Some raw)"
  shows "\<exists>pre entry post. ms = pre @ PyDict entry # post \<and> (\<forall>x \<in> set pre. passed_over x) \<and>
           map_of entry ''metric'' = Some (PyStr ''DatasetDriftMetric'') \<and>
           (raw = PyBool False \<or>
            (\<exists>res. map_of entry ''result'' = Some (PyDict res) \<and>
                   map_of res ''dataset_drift'' = Some raw))"
  using assms
proof (induction ms)
  case Nil
  then show ?case by simp
next
  case (Cons m ms)
  show ?case
  proof (cases m)
    case (PyDict d)
    show ?thesis
    proof (cases "map_of d ''metric'' = Some (PyStr ''DatasetDriftMetric'')")
      case True
      have "raw = PyBool False \<or>
            (\<exists>res. map_of d ''result'' = Some (PyDict res) \<and> map_of res ''dataset_drift'' = Some raw)"
      proof (cases "map_of d ''result''")
        case None
        with Cons.prems PyDict True show ?thesis by simp
      next
        case (Some r)
        with Cons.prems PyDict True obtain res where r: "r = PyDict res"
          by (cases r) simp_all
        with Cons.prems PyDict True Some show ?thesis
          by (cases "map_of res ''dataset_drift''") simp_all
      qed
      with PyDict True have "m # ms = [] @ PyDict d # ms \<and> (\<forall>x \<in> set []. passed_over x) \<and>
           map_of d ''metric'' = Some (PyStr ''DatasetDriftMetric'') \<and>
           (raw = PyBool False \<or>
            (\<exists>res. map_of d ''result'' = Some (PyDict res) \<and>
                   map_of res ''dataset_drift'' = Some raw))" by simp
      then show ?thesis by blast
    next
      case False
      with Cons.prems PyDict have "scan_metrics ms = Inr (Some raw)"
        by (simp split: option.splits)
      with Cons.IH obtain pre entry post where
        s: "ms = pre @ PyDict entry # post" "\<forall>x \<in> set pre. passed_over x"
           "map_of entry ''metric'' = Some (PyStr ''DatasetDriftMetric'')"
           "raw = PyBool False \<or>
            (\<exists>res. map_of entry ''result'' = Some (PyDict res) \<and>
                   map_of res ''dataset_drift'' = Some raw)"
        by blast
      from False PyDict have "passed_over m" by (simp add: passed_over_def)
      with s have "m # ms = (m # pre) @ PyDict entry # post \<and> (\<forall>x \<in> set (m # pre). passed_over x) \<and>
           map_of entry ''metric'' = Some (PyStr ''DatasetDriftMetric'') \<and>
           (raw = PyBool False \<or>
            (\<exists>res. map_of entry ''result'' = Some (PyDict res) \<and>
                   map_of res ''dataset_drift'' = Some raw))" by simp
      then show ?thesis by blast
    qed
  qed (use Cons.prems in simp_all)
qed

lemma find_dataset_drift_Some:
  assumes "find_dataset_drift report_dict = Inr (Some raw)"
  shows "raw = PyBool False \<or>
         (\<exists>kvs m pre entry post res. report_dict = PyDict kvs \<and> map_of kvs ''metrics'' = Some m \<and>
            py_iter m = Inr (pre @ PyDict entry # post) \<and> (\<forall>x \<in> set pre. passed_over x) \<and>
            map_of entry ''metric'' = Some (PyStr ''DatasetDriftMetric'') \<and>
            map_of entry ''result'' = Some (PyDict res) \<and>
            map_of res ''dataset_drift'' = Some raw)"
proof (cases report_dict)
  case (PyDict kvs)
  show ?thesis
  proof (cases "map_of kvs ''metrics''")
    case None
    with assms PyDict show ?thesis by (simp add: find_dataset_drift_def)
  next
    case (Some m)
    with assms PyDict obtain ms where ms: "py_iter m = Inr ms" "scan_metrics ms = Inr (Some raw)"
      by (auto simp add: find_dataset_drift_def split: sum.splits)
    from scan_metrics_Some [OF ms(2)] ms(1) PyDict Some show ?thesis by blast
  qed
qed (use assms in \<open>simp_all add: find_dataset_drift_def\<close>)

lemma check_drift_detected_only_if:
  assumes "check_drift (Inr report_dict) th n_ref n_cur = Inr (True, info)"
  shows "\<exists>raw. find_dataset_drift report_dict = Inr (Some raw) \<and>
           (raw = PyBool True \<or> (\<exists>x. raw = PyFloat x \<and> th < x) \<or>
            (\<exists>i. raw = PyInt i \<and> \<bar>i\<bar> < 2 ^ 1024 - 2 ^ 970 \<and> th < real_of_int i))"
proof (cases "find_dataset_drift report_dict")
  case (Inl e)
  with assms show ?thesis by (simp add: check_drift_def try_extract_def Let_def)
next
  case (Inr found)
  show ?thesis
  proof (cases found)
    case None
    with assms Inr show ?thesis by (simp add: check_drift_def try_extract_def Let_def)
  next
    case (Some raw)
    show ?thesis
    proof (cases raw)
      case (PyInt i)
      show ?thesis
      proof (cases "\<bar>i\<bar> < 2 ^ 1024 - 2 ^ 970")
        case True
        then have "py_float_of_int i = Inr (real_of_int (round_to_double i))"
          by (rule py_float_of_int_in_range)
        with assms Inr Some PyInt True show ?thesis
          by (simp add: check_drift_def try_extract_def interpret_raw_def Let_def)
      next
        case False
        then have "2 ^ 1024 - 2 ^ 970 \<le> \<bar>i\<bar>" by simp
        then have "py_float_of_int i = Inl OverflowError"
          by (simp only: py_float_of_int_overflow_iff)
        with assms Inr Some PyInt show ?thesis
          by (simp add: check_drift_def try_extract_def interpret_raw_def Let_def)
      qed
    qed (use assms Inr Some in \<open>simp_all add: check_drift_def try_extract_def interpret_raw_def Let_def\<close>)
  qed
qed

text \<open>
  C2 (amended). \<open>check_drift\<close> never raises on a report, and it reports drift only when
  the first \<open>DatasetDriftMetric\<close> entry has a \<open>result\<close> whose \<open>dataset_drift\<close> is
  present and is the boolean true or a number, a float or an int \<open>float\<close> converts,
  strictly above the threshold. On every report that cannot be parsed the verdict has
  detected false. Its score is \<open>0.0\<close> when the report is not a dict, has no \<open>metrics\<close>
  or \<open>metrics\<close> that cannot be iterated, has no \<open>DatasetDriftMetric\<close> entry, or has
  an entry or a \<open>result\<close> that is not a dict. Its score is the boolean false, the default
  of the lookup, when the entry has no \<open>result\<close> or the \<open>result\<close> has no
  \<open>dataset_drift\<close>. Its score is the raw \<open>dataset_drift\<close> value when that is present
  but neither a boolean, nor a float, nor an int of magnitude below \<open>2 ^ 1024 - 2 ^ 970\<close>.
\<close>

theorem check_drift_fail_closed:
  "((\<forall>kvs. report_dict \<noteq> PyDict kvs) \<longrightarrow>
      check_drift (Inr report_dict) th n_ref n_cur = no_drift_verdict (PyFloat 0) th n_ref n_cur)
   \<and> (\<forall>kvs. report_dict = PyDict kvs \<and> map_of kvs ''metrics'' = None \<longrightarrow>
      check_drift (Inr report_dict) th n_ref n_cur = no_drift_verdict (PyFloat 0) th n_ref n_cur)
   \<and> (\<forall>kvs m e. report_dict = PyDict kvs \<and> map_of kvs ''metrics'' = Some m \<and>
         py_iter m = Inl e \<longrightarrow>
      check_drift (Inr report_dict) th n_ref n_cur = no_drift_verdict (PyFloat 0) th n_ref n_cur)
   \<and> (\<forall>kvs m pre. report_dict = PyDict kvs \<and> map_of kvs ''metrics'' = Some m \<and>
         py_iter m = Inr pre \<and> (\<forall>x \<in> set pre. passed_over x) \<longrightarrow>
      check_drift (Inr report_dict) th n_ref n_cur = no_drift_verdict (PyFloat 0) th n_ref n_cur)
   \<and> (\<forall>kvs m pre bad post. report_dict = PyDict kvs \<and> map_of kvs ''metrics'' = Some m \<and>
         py_iter m = Inr (pre @ bad # post) \<and> (\<forall>x \<in> set pre. passed_over x) \<and>
         (\<forall>d. bad \<noteq> PyDict d) \<longrightarrow>
      check_drift (Inr report_dict) th n_ref n_cur = no_drift_verdict (PyFloat 0) th n_ref n_cur)
   \<and> (\<forall>kvs m pre entry post. report_dict = PyDict kvs \<and> map_of kvs ''metrics'' = Some m \<and>
         py_iter m = Inr (pre @ PyDict entry # post) \<and> (\<forall>x \<in> set pre. passed_over x) \<and>
         map_of entry ''metric'' = Some (PyStr ''DatasetDriftMetric'') \<longrightarrow>
        (map_of entry ''result'' = None \<longrightarrow>
           check_drift (Inr report_dict) th n_ref n_cur =
             no_drift_verdict (PyBool False) th n_ref n_cur)
        \<and> (\<forall>r. map_of entry ''result'' = Some r \<and> (\<forall>d. r \<noteq> PyDict d) \<longrightarrow>
           check_drift (Inr report_dict) th n_ref n_cur =
             no_drift_verdict (PyFloat 0) th n_ref n_cur)
        \<and> (\<forall>res. map_of entry ''result'' = Some (PyDict res) \<and>
                 map_of res ''dataset_drift'' = None \<longrightarrow>
           check_drift (Inr report_dict) th n_ref n_cur =
             no_drift_verdict (PyBool False) th n_ref n_cur)
        \<and> (\<forall>res raw. map_of entry ''result'' = Some (PyDict res) \<and>
                 map_of res ''dataset_drift'' = Some raw \<and>
                 (\<forall>b. raw \<noteq> PyBool b) \<and> (\<forall>x. raw \<noteq> PyFloat x) \<and>
                 (\<forall>i. raw = PyInt i \<longrightarrow> 2 ^ 1024 - 2 ^ 970 \<le> \<bar>i\<bar>) \<longrightarrow>
           check_drift (Inr report_dict) th n_ref n_cur = no_drift_verdict raw th n_ref n_cur))
   \<and> (\<forall>info. check_drift (Inr report_dict) th n_ref n_cur = Inr (True, info) \<longrightarrow>
        (\<exists>kvs m pre entry post res raw.
           report_dict = PyDict kvs \<and> map_of kvs ''metrics'' = Some m \<and>
           py_iter m = Inr (pre @ PyDict entry # post) \<and> (\<forall>x \<in> set pre. passed_over x) \<and>
           map_of entry ''metric'' = Some (PyStr ''DatasetDriftMetric'') \<and>
           map_of entry ''result'' = Some (PyDict res) \<and>
           map_of res ''dataset_drift'' = Some raw \<and>
           (raw = PyBool True \<or> (\<exists>x. raw = PyFloat x \<and> th < x) \<or>
            (\<exists>i. raw = PyInt i \<and> \<bar>i\<bar> < 2 ^ 1024 - 2 ^ 970 \<and> th < real_of_int i))))
   \<and> (\<exists>detected info. check_drift (Inr report_dict) th n_ref n_cur = Inr (detected, info))"
proof (intro conjI allI impI)
  assume "\<forall>kvs. report_dict \<noteq> PyDict kvs"
  then have "find_dataset_drift report_dict = Inl AttributeError"
    by (cases report_dict) (simp_all add: find_dataset_drift_def)
  then show "check_drift (Inr report_dict) th n_ref n_cur = no_drift_verdict (PyFloat 0) th n_ref n_cur"
    by (simp add: check_drift_no_result)
next
  fix kvs
  assume "report_dict = PyDict kvs \<and> map_of kvs ''metrics'' = None"
  then have "find_dataset_drift report_dict = Inr None"
    by (simp add: find_dataset_drift_def)
  then show "check_drift (Inr report_dict) th n_ref n_cur = no_drift_verdict (PyFloat 0) th n_ref n_cur"
    by (simp add: check_drift_no_result)
next
  fix kvs m e
  assume "report_dict = PyDict kvs \<and> map_of kvs ''metrics'' = Some m \<and> py_iter m = Inl e"
  then have "find_dataset_drift report_dict = Inl e"
    by (simp add: find_dataset_drift_def)
  then show "check_drift (Inr report_dict) th n_ref n_cur = no_drift_verdict (PyFloat 0) th n_ref n_cur"
    by (simp add: check_drift_no_result)
next
  fix kvs m pre
  assume a: "report_dict = PyDict kvs \<and> map_of kvs ''metrics'' = Some m \<and>
         py_iter m = Inr pre \<and> (\<forall>x \<in> set pre. passed_over x)"
  then have "find_dataset_drift report_dict = scan_metrics []"
    using find_dataset_drift_items [of kvs m pre "[]"] by simp
  then show "check_drift (Inr report_dict) th n_ref n_cur = no_drift_verdict (PyFloat 0) th n_ref n_cur"
    by (simp add: check_drift_no_result)
next
  fix kvs m pre bad post
  assume a: "report_dict = PyDict kvs \<and> map_of kvs ''metrics'' = Some m \<and>
         py_iter m = Inr (pre @ bad # post) \<and> (\<forall>x \<in> set pre. passed_over x) \<and>
         (\<forall>d. bad \<noteq> PyDict d)"
  then have "find_dataset_drift report_dict = scan_metrics (bad # post)"
    using find_dataset_drift_items [of kvs m pre "bad # post"] by simp
  moreover from a have "scan_metrics (bad # post) = Inl AttributeError"
    by (cases bad) simp_all
  ultimately show "check_drift (Inr report_dict) th n_ref n_cur = no_drift_verdict (PyFloat 0) th n_ref n_cur"
    by (simp add: check_drift_no_result)
next
  fix kvs m pre entry post
  assume a: "report_dict = PyDict kvs \<and> map_of kvs ''metrics'' = Some m \<and>
         py_iter m = Inr (pre @ PyDict entry # post) \<and> (\<forall>x \<in> set pre. passed_over x) \<and>
         map_of entry ''metric'' = Some (PyStr ''DatasetDriftMetric'')"
  then have f: "find_dataset_drift report_dict = scan_metrics (PyDict entry # post)"
    using find_dataset_drift_items [of kvs m pre "PyDict entry # post"] by simp
  from a have e: "map_of entry ''metric'' = Some (PyStr ''DatasetDriftMetric'')" by simp
  {
    assume "map_of entry ''result'' = None"
    with f e have "find_dataset_drift report_dict = Inr (Some (PyBool False))" by simp
    then show "check_drift (Inr report_dict) th n_ref n_cur =
             no_drift_verdict (PyBool False) th n_ref n_cur"
      by (rule check_drift_raw_false)
  }
  {
    fix r
    assume r: "map_of entry ''result'' = Some r \<and> (\<forall>d. r \<noteq> PyDict d)"
    then have "py_get r ''dataset_drift'' (PyBool False) = Inl AttributeError"
      by (cases r) simp_all
    with f e r have "find_dataset_drift report_dict = Inl AttributeError" by simp
    then show "check_drift (Inr report_dict) th n_ref n_cur =
             no_drift_verdict (PyFloat 0) th n_ref n_cur"
      by (simp add: check_drift_no_result)
  }
  {
    fix res
    assume "map_of entry ''result'' = Some (PyDict res) \<and> map_of res ''dataset_drift'' = None"
    with f e have "find_dataset_drift report_dict = Inr (Some (PyBool False))" by simp
    then show "check_drift (Inr report_dict) th n_ref n_cur =
             no_drift_verdict (PyBool False) th n_ref n_cur"
      by (rule check_drift_raw_false)
  }
  {
    fix res raw
    assume r: "map_of entry ''result'' = Some (PyDict res) \<and>
                 map_of res ''dataset_drift'' = Some raw \<and>
                 (\<forall>b. raw \<noteq> PyBool b) \<and> (\<forall>x. raw \<noteq> PyFloat x) \<and>
                 (\<forall>i. raw = PyInt i \<longrightarrow> 2 ^ 1024 - 2 ^ 970 \<le> \<bar>i\<bar>)"
    with f e have "find_dataset_drift report_dict = Inr (Some raw)" by simp
    with r show "check_drift (Inr report_dict) th n_ref n_cur = no_drift_verdict raw th n_ref n_cur"
      by (intro check_drift_raw_unexpected) blast+
  }
next
  fix info
  assume "check_drift (Inr report_dict) th n_ref n_cur = Inr (True, info)"
  from check_drift_detected_only_if [OF this] obtain raw where
    f: "find_dataset_drift report_dict = Inr (Some raw)" and
    d: "raw = PyBool True \<or> (\<exists>x. raw = PyFloat x \<and> th < x) \<or>
        (\<exists>i. raw = PyInt i \<and> \<bar>i\<bar> < 2 ^ 1024 - 2 ^ 970 \<and> th < real_of_int i)"
    by blast
  from d have "raw \<noteq> PyBool False" by auto
  with find_dataset_drift_Some [OF f] d
  show "\<exists>kvs m pre entry post res raw.
           report_dict = PyDict kvs \<and> map_of kvs ''metrics'' = Some m \<and>
           py_iter m = Inr (pre @ PyDict entry # post) \<and> (\<forall>x \<in> set pre. passed_over x) \<and>
           map_of entry ''metric'' = Some (PyStr ''DatasetDriftMetric'') \<and>
           map_of entry ''result'' = Some (PyDict res) \<and>
           map_of res ''dataset_drift'' = Some raw \<and>
           (raw = PyBool True \<or> (\<exists>x. raw = PyFloat x \<and> th < x) \<or>
            (\<exists>i. raw = PyInt i \<and> \<bar>i\<bar> < 2 ^ 1024 - 2 ^ 970 \<and> th < real_of_int i))"
    by blast
next
  show "\<exists>detected info. check_drift (Inr report_dict) th n_ref n_cur = Inr (detected, info)"
    by (simp add: check_drift_def Let_def)
qed

text \<open>A report that is \<open>None\<close>, a report without metrics, the two incomplete reports,
  and a result of \<open>None\<close>.\<close>

theorem check_drift_fail_closed_witness:
  "check_drift (Inr PyNone) (1 / 2) 10 10 = no_drift_verdict (PyFloat 0) (1 / 2) 10 10
   \<and> check_drift (Inr (PyDict [])) (1 / 2) 10 10 = no_drift_verdict (PyFloat 0) (1 / 2) 10 10
   \<and> check_drift (Inr report_without_result) (1 / 2) 10 10 =
       no_drift_verdict (PyBool False) (1 / 2) 10 10
   \<and> check_drift (Inr report_without_dataset_drift) (1 / 2) 10 10 =
       no_drift_verdict (PyBool False) (1 / 2) 10 10
   \<and> check_drift (Inr (example_report PyNone)) (1 / 2) 10 10 =
       no_drift_verdict PyNone (1 / 2) 10 10
   \<and> no_drift_verdict (PyBool False) (1 / 2) 10 10 =
       Inr (False, \<lparr>drift_detected = False, drift_score = PyBool False, threshold = 1 / 2,
                    reference_samples = 10, current_samples = 10\<rparr>)"
proof -
  note t1 = check_drift_fail_closed [of PyNone "1 / 2" 10 10, THEN conjunct1]
  note t2 = check_drift_fail_closed [of "PyDict []" "1 / 2" 10 10, THEN conjunct2, THEN conjunct1]
  note t3 = check_drift_fail_closed [of report_without_result "1 / 2" 10 10,
      THEN conjunct2, THEN conjunct2, THEN conjunct2, THEN conjunct2, THEN conjunct2,
      THEN conjunct1, rule_format,
      of "[(''metrics'', PyList [PyDict [(''metric'', PyStr ''DatasetDriftMetric'')]])]"
         "PyList [PyDict [(''metric'', PyStr ''DatasetDriftMetric'')]]" "[]"
         "[(''metric'', PyStr ''DatasetDriftMetric'')]" "[]"]
  note t4 = check_drift_fail_closed [of report_without_dataset_drift "1 / 2" 10 10,
      THEN conjunct2, THEN conjunct2, THEN conjunct2, THEN conjunct2, THEN conjunct2,
      THEN conjunct1, rule_format,
      of "[(''metrics'',
            PyList [PyDict [(''metric'', PyStr ''DatasetDriftMetric''),
                            (''result'', PyDict [(''number_of_columns'', PyInt 7)])]])]"
         "PyList [PyDict [(''metric'', PyStr ''DatasetDriftMetric''),
                            (''result'', PyDict [(''number_of_columns'', PyInt 7)])]]" "[]"
         "[(''metric'', PyStr ''DatasetDriftMetric''),
           (''result'', PyDict [(''number_of_columns'', PyInt 7)])]" "[]"]
  note t5 = check_drift_fail_closed [of "example_report PyNone" "1 / 2" 10 10,
      THEN conjunct2, THEN conjunct2, THEN conjunct2, THEN conjunct2, THEN conjunct2,
      THEN conjunct1, rule_format,
      of "[(''metrics'',
            PyList [PyDict [(''metric'', PyStr ''DatasetDriftMetric''),
                            (''result'', PyDict [(''dataset_drift'', PyNone)])]])]"
         "PyList [PyDict [(''metric'', PyStr ''DatasetDriftMetric''),
                            (''result'', PyDict [(''dataset_drift'', PyNone)])]]" "[]"
         "[(''metric'', PyStr ''DatasetDriftMetric''),
           (''result'', PyDict [(''dataset_drift'', PyNone)])]" "[]"]
  have 1: "check_drift (Inr PyNone) (1 / 2) 10 10 = no_drift_verdict (PyFloat 0) (1 / 2) 10 10"
    using t1 by simp
  have 2: "check_drift (Inr (PyDict [])) (1 / 2) 10 10 = no_drift_verdict (PyFloat 0) (1 / 2) 10 10"
    using t2 by simp
  have 3: "check_drift (Inr report_without_result) (1 / 2) 10 10 =
       no_drift_verdict (PyBool False) (1 / 2) 10 10"
    using t3 by (simp add: report_without_result_def)
  have 4: "check_drift (Inr report_without_dataset_drift) (1 / 2) 10 10 =
       no_drift_verdict (PyBool False) (1 / 2) 10 10"
    using t4 by (simp add: report_without_dataset_drift_def)
  have 5: "check_drift (Inr (example_report PyNone)) (1 / 2) 10 10 =
       no_drift_verdict PyNone (1 / 2) 10 10"
    using t5 by (simp add: example_report_def)
  from 1 2 3 4 5 show ?thesis by (simp add: no_drift_verdict_def)
qed

section \<open>Properties of the retrain trigger\<close>

text \<open>
  The orchestration service accepts the run: \<open>trigger_retraining\<close> returns at once
  and no marker file is created.
\<close>

theorem trigger_retraining_accepted_counterexample:
  "trigger_retraining ''http://localhost:8080'' ''retrain_model_dag'' airflow_accepts empty_world =
     (True, \<lparr>files = {},
             rest_calls = [''http://localhost:8080/api/v1/dags/retrain_model_dag/dagRuns'']\<rparr>)
   \<and> \<not> path_exists trigger_file
         (snd (trigger_retraining ''http://localhost:8080'' ''retrain_model_dag'' airflow_accepts
                 empty_world))"
  by (simp add: trigger_retraining_def dag_runs_url_def airflow_accepts_def empty_world_def
        path_exists_def Let_def)

text \<open>
  C3 (amended). \<open>trigger_retraining\<close> posts one run-creation request. It creates or
  touches the marker file exactly when that request did not come back with status 200 or
  201, that is, when it failed or threw; when the request succeeded, the files are left
  as they were.
\<close>

theorem trigger_retraining_marker:
  "files (snd (trigger_retraining base dag post w)) =
     (if primary_succeeded (post (dag_runs_url base dag)) then files w
      else insert trigger_file (files w))
   \<and> rest_calls (snd (trigger_retraining base dag post w)) =
       rest_calls w @ [dag_runs_url base dag]"
  by (simp add: trigger_retraining_def primary_succeeded_def touch_def Let_def
        split: sum.splits)

text \<open>A rejected request leaves the marker behind, an accepted one does not.\<close>

theorem trigger_retraining_marker_witness:
  "files (snd (trigger_retraining ''http://localhost:8080'' ''retrain_model_dag''
                 airflow_rejects empty_world)) = {trigger_file}
   \<and> files (snd (trigger_retraining ''http://localhost:8080'' ''retrain_model_dag''
                 airflow_accepts empty_world)) = {}"
  using trigger_retraining_marker
          [of "''http://localhost:8080''" "''retrain_model_dag''" airflow_rejects empty_world]
        trigger_retraining_marker
          [of "''http://localhost:8080''" "''retrain_model_dag''" airflow_accepts empty_world]
  by (simp add: primary_succeeded_def airflow_rejects_def airflow_accepts_def empty_world_def)

text \<open>
  C4. \<open>trigger_retraining\<close> returns true on every path. Whenever the run-creation
  request fails, by an exception or by a status other than 200 and 201, the marker file
  exists afterwards and the result is true.
\<close>

theorem trigger_retraining_returns_true:
  "fst (trigger_retraining base dag post w) = True
   \<and> (\<not> primary_succeeded (post (dag_runs_url base dag)) \<longrightarrow>
        trigger_retraining base dag post w =
          (True, \<lparr>files = insert trigger_file (files w),
                  rest_calls = rest_calls w @ [dag_runs_url base dag]\<rparr>)
        \<and> path_exists trigger_file (snd (trigger_retraining base dag post w)))"
  by (simp add: trigger_retraining_def primary_succeeded_def touch_def path_exists_def Let_def
        split: sum.splits)

text \<open>An unreachable service and a service that answers 401.\<close>

theorem trigger_retraining_returns_true_witness:
  "\<not> primary_succeeded
       (airflow_unreachable (dag_runs_url ''http://localhost:8080'' ''retrain_model_dag''))
   \<and> trigger_retraining ''http://localhost:8080'' ''retrain_model_dag'' airflow_unreachable
       empty_world =
       (True, \<lparr>files = {trigger_file},
               rest_calls = [dag_runs_url ''http://localhost:8080'' ''retrain_model_dag'']\<rparr>)
   \<and> \<not> primary_succeeded
         (airflow_rejects (dag_runs_url ''http://localhost:8080'' ''retrain_model_dag''))
   \<and> trigger_retraining ''http://localhost:8080'' ''retrain_model_dag'' airflow_rejects
       empty_world =
       (True, \<lparr>files = {trigger_file},
               rest_calls = [dag_runs_url ''http://localhost:8080'' ''retrain_model_dag'']\<rparr>)"
  using trigger_retraining_returns_true
          [of "''http://localhost:8080''" "''retrain_model_dag''" airflow_unreachable empty_world]
        trigger_retraining_returns_true
          [of "''http://localhost:8080''" "''retrain_model_dag''" airflow_rejects empty_world]
  by (simp add: primary_succeeded_def airflow_unreachable_def airflow_rejects_def empty_world_def)

text \<open>
  C5. When the marker file is present, \<open>check_retrain_trigger\<close> deletes it and returns
  true, and a second call right after returns false. When the marker is absent, it
  returns false and leaves the world as it is.
\<close>

theorem check_retrain_trigger_consumes_once:
  "(path_exists trigger_file w \<longrightarrow>
      check_retrain_trigger w = Inr (True, w\<lparr>files := files w - {trigger_file}\<rparr>)
      \<and> check_retrain_trigger (w\<lparr>files := files w - {trigger_file}\<rparr>) =
          Inr (False, w\<lparr>files := files w - {trigger_file}\<rparr>))
   \<and> (\<not> path_exists trigger_file w \<longrightarrow> check_retrain_trigger w = Inr (False, w))"
  by (simp add: check_retrain_trigger_def path_exists_def unlink_def)

text \<open>A world that holds the marker and nothing else: true, then false.\<close>

theorem check_retrain_trigger_consumes_once_witness:
  "path_exists trigger_file \<lparr>files = {trigger_file}, rest_calls = []\<rparr>
   \<and> check_retrain_trigger \<lparr>files = {trigger_file}, rest_calls = []\<rparr> = Inr (True, empty_world)
   \<and> check_retrain_trigger empty_world = Inr (False, empty_world)"
  using check_retrain_trigger_consumes_once [of "\<lparr>files = {trigger_file}, rest_calls = []\<rparr>"]
  by (simp add: path_exists_def empty_world_def)

section \<open>Properties of the sampler\<close>

text \<open>
  C8 (the code at the failing input). Three samples are asked of a serving API that
  answers each request with status 500: no exception is raised, so no mock prediction is
  substituted, and the three trips are dropped. The frame is empty.
\<close>

theorem get_predictions_drops_failed_status:
  "get_predictions_from_api gen_index api_status_500 mock_thirty ''http://localhost:8000'' 3 = []"
  by (simp add: get_predictions_from_api_def sample_once_def api_status_500_def upt_conv_Cons)

text \<open>When no request comes back with a status other than 200, every pass of the loop
  appends a row.\<close>

lemma sample_loop_length:
  assumes "\<forall>i \<in> set idx. \<forall>resp. post i (gen i) = Inr resp \<longrightarrow> status_code resp = 200"
  shows "length (sample_loop gen post mock idx data) = length data + length idx"
  using assms
proof (induction idx arbitrary: data)
  case Nil
  then show ?case by simp
next
  case (Cons i rest)
  have step: "length (sample_once (post i (gen i)) (gen i) (mock i) data) = Suc (length data)"
    using Cons.prems by (auto simp add: sample_once_def split: sum.splits)
  from Cons
  have "length (sample_loop gen post mock rest
                  (sample_once (post i (gen i)) (gen i) (mock i) data))
      = length (sample_once (post i (gen i)) (gen i) (mock i) data) + length rest"
    by simp
  with step show ?case by simp
qed

lemma get_predictions_length:
  assumes "\<forall>i < nat n. \<forall>resp. post (api_url @ ''/predict'') i (gen i) = Inr resp \<longrightarrow>
             status_code resp = 200"
  shows "length (get_predictions_from_api gen post mock api_url n) = nat n"
  using assms by (simp add: get_predictions_from_api_def sample_loop_length)

section \<open>Properties of the monitoring cycle\<close>

text \<open>
  C6. When the two samples load and the drift check returns a verdict, \<open>monitor_drift\<close>
  returns the verdict's detected flag. When the flag is true it has called
  \<open>trigger_retraining\<close>, which posted the run-creation request and, unless that
  succeeded, created the marker; when the flag is false the world is unchanged. A drift
  library that reports \<open>dataset_drift\<close> as true makes the flag true.
\<close>

theorem monitor_drift_triggers_iff_detected:
  assumes "ingest_data (read_partition env) reference_month = Inr reference_data"
      and "current_sample env current_month api_url n_samples = Inr current_data"
      and "cycle_verdict env reference_data current_data th = Inr (detected, info)"
  shows "monitor_drift env reference_month current_month api_url th n_samples w =
           Inr (detected,
                if detected
                then snd (trigger_retraining (airflow_url env) (dag_id env) (airflow_post env) w)
                else w)
         \<and> (detected \<longrightarrow>
              rest_calls (snd (trigger_retraining (airflow_url env) (dag_id env)
                                 (airflow_post env) w)) =
                rest_calls w @ [dag_runs_url (airflow_url env) (dag_id env)]
              \<and> (primary_succeeded (airflow_post env (dag_runs_url (airflow_url env) (dag_id env)))
                 \<or> path_exists trigger_file
                      (snd (trigger_retraining (airflow_url env) (dag_id env)
                              (airflow_post env) w))))
         \<and> (\<forall>report. drift_report env (CleanedFrame reference_data) current_data = Inr report \<and>
               find_dataset_drift report = Inr (Some (PyBool True)) \<longrightarrow> detected)"
proof (intro conjI impI allI)
  show "monitor_drift env reference_month current_month api_url th n_samples w =
           Inr (detected,
                if detected
                then snd (trigger_retraining (airflow_url env) (dag_id env) (airflow_post env) w)
                else w)"
    using assms by (simp add: monitor_drift_def)
next
  show "rest_calls (snd (trigger_retraining (airflow_url env) (dag_id env) (airflow_post env) w)) =
          rest_calls w @ [dag_runs_url (airflow_url env) (dag_id env)]"
    by (simp add: trigger_retraining_def touch_def Let_def split: sum.splits)
next
  show "primary_succeeded (airflow_post env (dag_runs_url (airflow_url env) (dag_id env)))
        \<or> path_exists trigger_file
             (snd (trigger_retraining (airflow_url env) (dag_id env) (airflow_post env) w))"
    by (simp add: trigger_retraining_def primary_succeeded_def touch_def path_exists_def Let_def
          split: sum.splits)
next
  fix report
  assume "drift_report env (CleanedFrame reference_data) current_data = Inr report \<and>
          find_dataset_drift report = Inr (Some (PyBool True))"
  with assms(3) show detected
    by (simp add: cycle_verdict_def check_drift_def try_extract_def interpret_raw_def Let_def)
qed

text \<open>
  The cycle for reference month \<open>2023-01\<close>, no current month, ten samples and threshold
  one half, with a drift library that reports dataset drift and an orchestration service
  that cannot be reached: the result is true, the request was attempted and the marker
  exists.
\<close>

theorem monitor_drift_triggers_iff_detected_witness:
  "monitor_drift example_env ''2023-01'' None ''http://localhost:8000'' (1 / 2) 10 empty_world =
     Inr (True, \<lparr>files = {trigger_file},
                 rest_calls = [dag_runs_url ''http://localhost:8080'' ''retrain_model_dag'']\<rparr>)"
proof -
  have a: "ingest_data (read_partition example_env) ''2023-01'' = Inr []"
    by (simp add: ingest_data_def example_env_def no_rows_def preprocess_data_def)
  have b: "current_sample example_env None ''http://localhost:8000'' 10 =
             Inr (PredictionFrame
                    (get_predictions_from_api gen_index api_unreachable mock_thirty
                       ''http://localhost:8000'' 10))"
    by (simp add: current_sample_def example_env_def)
  have c: "cycle_verdict example_env []
             (PredictionFrame
                (get_predictions_from_api gen_index api_unreachable mock_thirty
                   ''http://localhost:8000'' 10)) (1 / 2) =
           Inr (True, \<lparr>drift_detected = True, drift_score = PyBool True, threshold = 1 / 2,
                       reference_samples = 0, current_samples = 10\<rparr>)"
    by (simp add: cycle_verdict_def example_env_def reports_drift_def check_drift_def
          try_extract_def find_dataset_drift_example interpret_raw_def Let_def
          get_predictions_length api_unreachable_def)
  show ?thesis
    using monitor_drift_triggers_iff_detected [OF a b c, of empty_world]
    by (simp add: example_env_def trigger_retraining_def airflow_unreachable_def touch_def
          empty_world_def Let_def)
qed

section \<open>Properties of the cleaning\<close>

lemma preprocess_ten_minute_ride:
  "0 < pc \<Longrightarrow> pc \<le> 6 \<Longrightarrow> preprocess_data [ten_minute_ride pc] = [cleaned_ten_minute_ride pc]"
  by (simp add: preprocess_data_def ten_minute_ride_def cleaned_ten_minute_ride_def
        bounds_mask_def duration_mask_def trip_duration_minutes_def select_row_def
        col_gt_def col_lt_def col_le_def notna_def astype_int_def)

text \<open>
  A row with a passenger count of one half passes both filters: the cleaned frame holds
  a record whose passenger count is below one.
\<close>

theorem preprocess_data_half_passenger_counterexample:
  "preprocess_data [ten_minute_ride (1 / 2)] = [cleaned_ten_minute_ride (1 / 2)]
   \<and> \<not> 1 \<le> c_passenger_count (cleaned_ten_minute_ride (1 / 2))"
  by (simp add: preprocess_ten_minute_ride) (simp add: cleaned_ten_minute_ride_def)

lemma select_row_fields:
  assumes "select_row r = Some t"
  shows "raw_trip_distance r = Some (c_trip_distance t)"
    and "raw_passenger_count r = Some (c_passenger_count t)"
    and "trip_duration_minutes r = Some (c_trip_duration_minutes t)"
  using assms by (auto simp add: select_row_def split: option.splits)

lemma preprocess_data_source:
  assumes "t \<in> set (preprocess_data df)"
  shows "\<exists>r \<in> set df. bounds_mask r \<and> duration_mask r \<and> select_row r = Some t"
  using assms by (auto simp add: preprocess_data_def List.map_filter_def)

lemma preprocess_data_append:
  "preprocess_data (xs @ ys) = preprocess_data xs @ preprocess_data ys"
  by (simp add: preprocess_data_def List.map_filter_def)

lemma preprocess_data_dropped:
  assumes "\<not> (bounds_mask r \<and> duration_mask r)"
  shows "preprocess_data [r] = []"
  using assms by (auto simp add: preprocess_data_def List.map_filter_def)

text \<open>
  C7 (amended). Every record of the cleaned frame has a trip distance in \<open>(0, 100)\<close>, a
  passenger count in \<open>(0, 6]\<close>, which is \<open>[1, 6]\<close> for a whole-number count, and a trip
  duration in \<open>(0, 180]\<close>. It carries the values of an input row that is within these
  bounds, unchanged, and an input row that violates one of them contributes nothing to the
  output.
\<close>

theorem preprocess_data_bounds:
  "(\<forall>t \<in> set (preprocess_data df).
       0 < c_trip_distance t \<and> c_trip_distance t < 100 \<and>
       0 < c_passenger_count t \<and> c_passenger_count t \<le> 6 \<and>
       (c_passenger_count t \<in> \<int> \<longrightarrow> 1 \<le> c_passenger_count t) \<and>
       0 < c_trip_duration_minutes t \<and> c_trip_duration_minutes t \<le> 180 \<and>
       (\<exists>r \<in> set df. within_bounds r \<and> select_row r = Some t))
   \<and> (\<forall>xs r ys. df = xs @ r # ys \<and> \<not> within_bounds r \<longrightarrow>
         preprocess_data df = preprocess_data (xs @ ys))"
proof (intro conjI ballI allI impI)
  fix t
  assume "t \<in> set (preprocess_data df)"
  then obtain r where r: "r \<in> set df" "bounds_mask r" "duration_mask r" "select_row r = Some t"
    using preprocess_data_source by blast
  note f = select_row_fields [OF r(4)]
  from r(2) f show "0 < c_trip_distance t" "c_trip_distance t < 100"
    "0 < c_passenger_count t" "c_passenger_count t \<le> 6"
    by (simp_all add: bounds_mask_def col_gt_def col_lt_def col_le_def)
  from r(3) f show "0 < c_trip_duration_minutes t" "c_trip_duration_minutes t \<le> 180"
    by (simp_all add: duration_mask_def col_gt_def col_le_def)
  from r(2,3) have "within_bounds r"
    by (simp add: within_bounds_def bounds_mask_def duration_mask_def)
  with r show "\<exists>r \<in> set df. within_bounds r \<and> select_row r = Some t" by blast
  {
    assume "c_passenger_count t \<in> \<int>"
    then obtain k where k: "c_passenger_count t = real_of_int k" by (auto elim: Ints_cases)
    from \<open>0 < c_passenger_count t\<close> k have "0 < k" by simp
    then have "1 \<le> k" by simp
    with k show "1 \<le> c_passenger_count t" by simp
  }
next
  fix xs r ys
  assume a: "df = xs @ r # ys \<and> \<not> within_bounds r"
  then have "\<not> (bounds_mask r \<and> duration_mask r)"
    by (auto simp add: within_bounds_def bounds_mask_def duration_mask_def)
  then have "preprocess_data [r] = []" by (rule preprocess_data_dropped)
  moreover have "preprocess_data (xs @ r # ys) =
                   preprocess_data xs @ preprocess_data [r] @ preprocess_data ys"
    using preprocess_data_append [of xs "[r] @ ys"] preprocess_data_append [of "[r]" ys] by simp
  ultimately show "preprocess_data df = preprocess_data (xs @ ys)"
    using a by (simp add: preprocess_data_append)
qed

text \<open>Two rides, with two and with seven passengers: only the first is kept.\<close>

theorem preprocess_data_bounds_witness:
  "preprocess_data [ten_minute_ride 2, ten_minute_ride 7] = [cleaned_ten_minute_ride 2]
   \<and> \<not> within_bounds (ten_minute_ride 7)
   \<and> 1 \<le> c_passenger_count (cleaned_ten_minute_ride 2)"
proof -
  have w: "\<not> within_bounds (ten_minute_ride 7)"
    by (simp add: within_bounds_def ten_minute_ride_def col_le_def col_gt_def col_lt_def)
  have "[ten_minute_ride 2, ten_minute_ride 7] = [ten_minute_ride 2] @ ten_minute_ride 7 # []
        \<and> \<not> within_bounds (ten_minute_ride 7)"
    using w by simp
  with preprocess_data_bounds [of "[ten_minute_ride 2, ten_minute_ride 7]"]
  have "preprocess_data [ten_minute_ride 2, ten_minute_ride 7] =
          preprocess_data ([ten_minute_ride 2] @ [])"
    by blast
  then show ?thesis using w
    by (simp add: preprocess_ten_minute_ride) (simp add: cleaned_ten_minute_ride_def)
qed

section \<open>Properties of the serving endpoints\<close>

lemma field_errors_iff: "field_errors t \<noteq> [] \<longleftrightarrow> violates_bound t"
  by (auto simp add: field_errors_def violates_bound_def)

text \<open>
  C9. A request that violates a field bound is answered with a validation failure,
  whatever the model is: the handler and the model are not reached. This holds in
  particular for a passenger count of seven. A request with every field at its minimum
  passes validation and reaches the handler, which answers with the single duration the
  model predicts for the one-row frame.
\<close>

theorem post_predict_validation:
  "(violates_bound body \<longrightarrow>
      post_predict model features version body = ValidationFailure (field_errors body)
      \<and> field_errors body \<noteq> [])
   \<and> (passenger_count body = 7 \<longrightarrow>
        post_predict model features version body = ValidationFailure (field_errors body)
        \<and> ''passenger_count'' \<in> set (field_errors body))
   \<and> (0 < trip_distance body \<and> passenger_count body = 1 \<and> hour body = 0 \<and>
       day_of_week body = 0 \<and> month body = 1 \<and> pickup_location_id body = 1 \<and>
       dropoff_location_id body = 1 \<longrightarrow>
        field_errors body = []
        \<and> post_predict model features version body = predict model features version body
        \<and> (\<forall>X p rest. pd_DataFrame [feature_values body] features = Inr X \<and>
              model X = Inr (p # rest) \<longrightarrow>
              post_predict model features version body =
                Ok200 \<lparr>predicted_duration_minutes = p, model_version = version\<rparr>))"
proof (intro conjI impI allI)
  assume "violates_bound body"
  then show e: "field_errors body \<noteq> []" by (simp add: field_errors_iff)
  then show "post_predict model features version body = ValidationFailure (field_errors body)"
    by (simp add: post_predict_def)
next
  assume "passenger_count body = 7"
  then show "''passenger_count'' \<in> set (field_errors body)"
    by (simp add: field_errors_def)
  then have "field_errors body \<noteq> []" by auto
  then show "post_predict model features version body = ValidationFailure (field_errors body)"
    by (simp add: post_predict_def)
next
  assume "0 < trip_distance body \<and> passenger_count body = 1 \<and> hour body = 0 \<and>
       day_of_week body = 0 \<and> month body = 1 \<and> pickup_location_id body = 1 \<and>
       dropoff_location_id body = 1"
  then show "field_errors body = []" by (simp add: field_errors_def)
  then show q: "post_predict model features version body = predict model features version body"
    by (simp add: post_predict_def)
  fix X p rest
  assume "pd_DataFrame [feature_values body] features = Inr X \<and> model X = Inr (p # rest)"
  then show "post_predict model features version body =
               Ok200 \<lparr>predicted_duration_minutes = p, model_version = version\<rparr>"
    using q by (simp add: predict_def)
qed

text \<open>The minimum request with seven passengers is rejected; the minimum request itself
  is answered with the model's prediction.\<close>

theorem post_predict_validation_witness:
  "violates_bound (minimum_request\<lparr>passenger_count := 7\<rparr>)
   \<and> post_predict (constant_model 12) config_features ''latest''
       (minimum_request\<lparr>passenger_count := 7\<rparr>) = ValidationFailure [''passenger_count'']
   \<and> post_predict (constant_model 12) config_features ''latest'' minimum_request =
       Ok200 \<lparr>predicted_duration_minutes = 12, model_version = ''latest''\<rparr>"
proof -
  have a: "violates_bound (minimum_request\<lparr>passenger_count := 7\<rparr>)"
    by (simp add: violates_bound_def minimum_request_def)
  have b: "field_errors (minimum_request\<lparr>passenger_count := 7\<rparr>) = [''passenger_count'']"
    by (simp add: field_errors_def minimum_request_def)
  have c: "pd_DataFrame [feature_values minimum_request] config_features =
             Inr \<lparr>frame_columns = config_features,
                  frame_rows = [feature_values minimum_request]\<rparr>"
    by (simp add: pd_DataFrame_def feature_values_def config_features_def)
  have d: "constant_model 12 \<lparr>frame_columns = config_features,
                               frame_rows = [feature_values minimum_request]\<rparr> = Inr [12]"
    by (simp add: constant_model_def)
  have m: "0 < trip_distance minimum_request \<and> passenger_count minimum_request = 1 \<and>
       hour minimum_request = 0 \<and> day_of_week minimum_request = 0 \<and>
       month minimum_request = 1 \<and> pickup_location_id minimum_request = 1 \<and>
       dropoff_location_id minimum_request = 1"
    by (simp add: minimum_request_def)
  from post_predict_validation
         [of "minimum_request\<lparr>passenger_count := 7\<rparr>" "constant_model 12" config_features
             "''latest''"] a b
  have 1: "post_predict (constant_model 12) config_features ''latest''
       (minimum_request\<lparr>passenger_count := 7\<rparr>) = ValidationFailure [''passenger_count'']"
    by simp
  from post_predict_validation
         [of minimum_request "constant_model 12" config_features "''latest''"] m c d
  have 2: "post_predict (constant_model 12) config_features ''latest'' minimum_request =
       Ok200 \<lparr>predicted_duration_minutes = 12, model_version = ''latest''\<rparr>"
    by blast
  from a 1 2 show ?thesis by simp
qed

text \<open>
  C10. For a valid request and a model that returns one prediction for the one-row
  frame, the batch endpoint on the singleton list answers with one element, and its
  duration and model version are those the single-record endpoint answers with. Whenever
  the batch endpoint answers the singleton list with one element, the single-record
  endpoint answers with that element.
\<close>

theorem predict_batch_singleton_agrees:
  assumes "field_errors t = []"
  shows "(\<forall>X p. pd_DataFrame [feature_values t] features = Inr X \<and> model X = Inr [p] \<longrightarrow>
            post_predict_batch model features version [t] =
              Ok200 [\<lparr>predicted_duration_minutes = p, model_version = version\<rparr>]
            \<and> post_predict model features version t =
              Ok200 \<lparr>predicted_duration_minutes = p, model_version = version\<rparr>)
       \<and> (\<forall>resp. post_predict_batch model features version [t] = Ok200 [resp] \<longrightarrow>
            post_predict model features version t = Ok200 resp)"
  using assms
  by (auto simp add: post_predict_batch_def post_predict_def predict_batch_def predict_def
        split: sum.splits list.splits)

text \<open>The minimum request and a model that predicts twelve minutes.\<close>

theorem predict_batch_singleton_agrees_witness:
  "field_errors minimum_request = []
   \<and> post_predict_batch (constant_model 12) config_features ''latest'' [minimum_request] =
       Ok200 [\<lparr>predicted_duration_minutes = 12, model_version = ''latest''\<rparr>]
   \<and> post_predict (constant_model 12) config_features ''latest'' minimum_request =
       Ok200 \<lparr>predicted_duration_minutes = 12, model_version = ''latest''\<rparr>"
proof -
  have e: "field_errors minimum_request = []"
    by (simp add: field_errors_def minimum_request_def)
  have c: "pd_DataFrame [feature_values minimum_request] config_features =
             Inr \<lparr>frame_columns = config_features,
                  frame_rows = [feature_values minimum_request]\<rparr>"
    by (simp add: pd_DataFrame_def feature_values_def config_features_def)
  have d: "constant_model 12 \<lparr>frame_columns = config_features,
                               frame_rows = [feature_values minimum_request]\<rparr> = Inr [12]"
    by (simp add: constant_model_def)
  from predict_batch_singleton_agrees
         [OF e, of config_features "constant_model 12" "''latest''"] c d e
  show ?thesis by blast
qed

end
